theory Spec2Isabelle
  imports Main "HOL-Library.AList"
begin

section \<open>Values, dictionaries and files\<close>

text \<open>
  The application (class \<open>POApp\<close> of \<open>src/mypoapp/app.py\<close>) keeps all of its data as
  the values \<open>json.load\<close> returns. A JSON number is an integer here: no function below
  computes with a number, only its truth value is read.
\<close>

datatype json =
    JNull
  | JBool bool
  | JNum int
  | JStr string
  | JArr "json list"
  | JObj "(string \<times> json) list"

text \<open>
  A Python \<open>dict\<close> with string keys is an association list in insertion order.
  \<open>k in d\<close> is \<open>has_key\<close>, \<open>d.get(k, default)\<close> is \<open>dict_get\<close>, \<open>d[k] = v\<close> is
  \<open>dict_set\<close> (the entry keeps its place when the key is there and goes last when it is
  not), \<open>list(d.keys())\<close> is \<open>keys\<close>. The keys of a Python dict are distinct: \<open>wf_dict\<close>.
\<close>

type_synonym 'v dict = "(string \<times> 'v) list"

definition has_key :: "'v dict \<Rightarrow> string \<Rightarrow> bool" where
  "has_key d k = (map_of d k \<noteq> None)"

definition dict_get :: "'v dict \<Rightarrow> string \<Rightarrow> 'v \<Rightarrow> 'v" where
  "dict_get d k dflt = (case map_of d k of None \<Rightarrow> dflt | Some v \<Rightarrow> v)"

definition dict_set :: "string \<Rightarrow> 'v \<Rightarrow> 'v dict \<Rightarrow> 'v dict" where
  "dict_set k v d = AList.update k v d"

definition keys :: "'v dict \<Rightarrow> string list" where
  "keys d = map fst d"

definition wf_dict :: "'v dict \<Rightarrow> bool" where
  "wf_dict d = distinct (map fst d)"

text \<open>Python's truth value of a JSON value, as \<open>if x:\<close> reads it.\<close>

fun truthy :: "json \<Rightarrow> bool" where
  "truthy JNull = False"
| "truthy (JBool b) = b"
| "truthy (JNum n) = (n \<noteq> 0)"
| "truthy (JStr s) = (s \<noteq> [])"
| "truthy (JArr xs) = (xs \<noteq> [])"
| "truthy (JObj kvs) = (kvs \<noteq> [])"

text \<open>
  The exceptions the modelled code can meet. A file of the app's data directory is its
  content (absent, present but unreadable, present but not JSON, or the parsed value)
  and whether opening it for writing succeeds.
\<close>

datatype error =
    FileNotFoundError
  | OSError
  | JSONDecodeError
  | IndexError
  | AttributeError
  | TypeError
  | RequestException

datatype 'a content = Missing | Unreadable | Malformed | Json 'a

record 'a json_file =
  content :: "'a content"
  writable :: bool

definition path_exists :: "'a json_file \<Rightarrow> bool" where
  "path_exists f = (content f \<noteq> Missing)"

definition read_json :: "'a json_file \<Rightarrow> error + 'a" where
  "read_json f =
     (case content f of
        Missing \<Rightarrow> Inl FileNotFoundError
      | Unreadable \<Rightarrow> Inl OSError
      | Malformed \<Rightarrow> Inl JSONDecodeError
      | Json v \<Rightarrow> Inr v)"

definition write_json :: "'a \<Rightarrow> 'a json_file \<Rightarrow> error + 'a json_file" where
  "write_json v f = (if writable f then Inr (f\<lparr>content := Json v\<rparr>) else Inl OSError)"

text \<open>
  An HTTP exchange: \<open>requests\<close> raises (timeout, no connection), or there is a response
  with its \<open>status_code\<close> and the value \<open>response.json()\<close> returns (\<open>None\<close> when the body
  is not JSON and \<open>json()\<close> raises).
\<close>

datatype 'a http_response = NoResponse | Response int "'a option"

section \<open>The application state\<close>

type_synonym company_data = "string list dict"
type_synonym companies = "company_data dict"
type_synonym company_db = "companies dict"
type_synonym po = "json dict"

datatype app_screen =
    RouteSelection
  | CompanyManagement
  | SettingsScreen
  | DeliveryHome
  | PickupHome
  | AddPO
  | CompanySelection
  | AddCompany

text \<open>The dialogs the modelled functions show, by the message each one carries.\<close>

datatype dialog =
    NoRoute
  | DownloadSuccess int
  | DataFormatError json
  | NoDataField
  | ApiReturnedError json
  | ServerReturnedStatus int
  | FailedToDownload error
  | NoSelectionToUpload
  | NoSelectionToDelete
  | CouldntLoadData error
  | UploadSuccess nat
  | ServerResponded int
  | UploadFailed error
  | DeleteSuccess nat
  | DeleteFailed error
  | InvalidSelection
  | InvalidPickUpForm

record app =
  upload_url :: string
  company_db_url :: string
  delivery_url :: string
  selected_route :: string
  selected_company :: string
  driver_id :: string
  app_mode :: string
  settings_file :: "string dict json_file"
  company_database :: company_db
  company_db_file :: "company_db json_file"
  available_routes :: "string list"
  company_names :: "string list"
  frequent_blades :: "string list"
  data_file :: "po list json_file"
  checkboxes :: "bool list"
  editing_index :: "nat option"
  delivery_data_file :: "json json_file"
  delivery_api_response :: json
  delivery_companies :: "string list"
  current_delivery_index :: int
  total_deliveries :: int
  main_window_content :: app_screen
  dialogs :: "dialog list"

definition show_dialog :: "dialog \<Rightarrow> app \<Rightarrow> app" where
  "show_dialog d st = st\<lparr>dialogs := dialogs st @ [d]\<rparr>"

section \<open>Settings store\<close>

text \<open>
  \<open>save_settings\<close> (lines 1146-1161) writes the seven settings as one dict; a failed
  write is caught and only logged.
\<close>

definition settings_of :: "app \<Rightarrow> string dict" where
  "settings_of st =
     [(''upload_url'', upload_url st),
      (''company_db_url'', company_db_url st),
      (''delivery_url'', delivery_url st),
      (''selected_route'', selected_route st),
      (''selected_company'', selected_company st),
      (''driver_id'', driver_id st),
      (''app_mode'', app_mode st)]"

definition save_settings :: "app \<Rightarrow> app" where
  "save_settings st =
     (case write_json (settings_of st) (settings_file st) of
        Inl e \<Rightarrow> st
      | Inr f \<Rightarrow> st\<lparr>settings_file := f\<rparr>)"

section \<open>Company database store\<close>

text \<open>\<open>update_route_company_lists\<close> (lines 1276-1287).\<close>

definition update_route_company_lists :: "app \<Rightarrow> app" where
  "update_route_company_lists st =
     (let st1 = st\<lparr>available_routes := keys (company_database st)\<rparr>;
          st2 = (if selected_route st1 \<noteq> [] then
                   (case map_of (company_database st1) (selected_route st1) of
                      Some cs \<Rightarrow> st1\<lparr>company_names := keys cs\<rparr>
                    | None \<Rightarrow> st1\<lparr>company_names := []\<rparr>)
                 else st1\<lparr>company_names := []\<rparr>)
      in if selected_company st2 \<noteq> [] \<and> selected_company st2 \<notin> set (company_names st2)
         then save_settings (st2\<lparr>selected_company := []\<rparr>)
         else st2)"

text \<open>\<open>load_company_database\<close> (lines 1247-1262) and \<open>save_company_database\<close> (1264-1274).\<close>

definition load_company_database :: "app \<Rightarrow> app" where
  "load_company_database st =
     (if path_exists (company_db_file st) then
        (case read_json (company_db_file st) of
           Inr loaded \<Rightarrow> update_route_company_lists (st\<lparr>company_database := loaded\<rparr>)
         | Inl e \<Rightarrow> update_route_company_lists (st\<lparr>company_database := []\<rparr>))
      else update_route_company_lists (st\<lparr>company_database := []\<rparr>))"

definition save_company_database :: "app \<Rightarrow> bool \<times> app" where
  "save_company_database st =
     (case write_json (company_database st) (company_db_file st) of
        Inl e \<Rightarrow> (False, st)
      | Inr f \<Rightarrow> (True, update_route_company_lists (st\<lparr>company_db_file := f\<rparr>)))"

text \<open>
  \<open>sync_company_database\<close> (lines 1289-1330). The server sends
  \<open>{route: {company: {"descriptions": [...]}}}\<close>; the first loop (1297-1302) turns it
  into the local shape. Both the snapshot and the local database are typed here as
  route to company to field to list of strings; a snapshot of another shape (which
  makes the code raise and return \<open>False\<close>) is not a value of the model. The result of
  \<open>save_company_database\<close> is not looked at, as in the code.
\<close>

definition convert_companies :: "companies \<Rightarrow> companies" where
  "convert_companies cs =
     fold (\<lambda>(company, data) acc.
             dict_set company [(''frequent_blades'', dict_get data ''descriptions'' [])] acc)
          cs []"

definition convert_db :: "company_db \<Rightarrow> company_db" where
  "convert_db server_db =
     fold (\<lambda>(route, cs) acc. dict_set route (convert_companies cs) acc) server_db []"

text \<open>
  The merge loop (1306-1317). \<open>list(set(xs))\<close> removes duplicates and returns the
  elements in the hash table's order, which Python leaves unspecified: the function
  \<open>list_of_set\<close> stands for it and is a parameter of the model.
\<close>

type_synonym set_order = "string list \<Rightarrow> string list"

definition merge_company :: "set_order \<Rightarrow> string \<Rightarrow> company_data \<Rightarrow> companies \<Rightarrow> companies" where
  "merge_company list_of_set company data local_cs =
     (case map_of local_cs company of
        Some existing_data \<Rightarrow>
          (let existing_blades = dict_get existing_data ''frequent_blades'' [];
               new_blades = dict_get data ''frequent_blades'' [];
               merged_blades = list_of_set (existing_blades @ new_blades)
           in dict_set company (dict_set ''frequent_blades'' merged_blades existing_data) local_cs)
      | None \<Rightarrow> dict_set company data local_cs)"

definition merge_companies :: "set_order \<Rightarrow> companies \<Rightarrow> companies \<Rightarrow> companies" where
  "merge_companies list_of_set cs local_cs =
     fold (\<lambda>(company, data) acc. merge_company list_of_set company data acc) cs local_cs"

definition merge_route :: "set_order \<Rightarrow> string \<Rightarrow> companies \<Rightarrow> company_db \<Rightarrow> company_db" where
  "merge_route list_of_set route cs db =
     (let db1 = (if \<not> has_key db route then dict_set route [] db else db)
      in dict_set route (merge_companies list_of_set cs (dict_get db1 route [])) db1)"

definition merge_db :: "set_order \<Rightarrow> company_db \<Rightarrow> company_db \<Rightarrow> company_db" where
  "merge_db list_of_set converted_db db =
     fold (\<lambda>(route, cs) acc. merge_route list_of_set route cs acc) converted_db db"

definition sync_company_database ::
  "set_order \<Rightarrow> company_db http_response \<Rightarrow> bool \<Rightarrow> app \<Rightarrow> bool \<times> app" where
  "sync_company_database list_of_set response replace st =
     (case response of
        NoResponse \<Rightarrow> (False, st)
      | Response status body \<Rightarrow>
          if status = 200 then
            (case body of
               None \<Rightarrow> (False, st)
             | Some server_db \<Rightarrow>
                 (let converted_db = convert_db server_db;
                      st1 = (if replace then st\<lparr>company_database := converted_db\<rparr>
                             else st\<lparr>company_database :=
                                       merge_db list_of_set converted_db (company_database st)\<rparr>);
                      st2 = snd (save_company_database st1)
                  in (True, update_route_company_lists st2)))
          else (False, st))"

section \<open>Delivery cache store\<close>

text \<open>
  What a Python \<open>for\<close> loop walks over when it is given a JSON value: the elements of
  a list, the keys of a dict, the characters of a string; anything else is not
  iterable. \<open>contains sub s\<close> is \<open>sub in s\<close> on strings. \<open>py_index\<close> is \<open>xs[i]\<close> for any
  integer \<open>i\<close>: a negative index counts from the end.
\<close>

definition iter_items :: "json \<Rightarrow> error + json list" where
  "iter_items v =
     (case v of
        JArr xs \<Rightarrow> Inr xs
      | JObj kvs \<Rightarrow> Inr (map (\<lambda>(k, x). JStr k) kvs)
      | JStr s \<Rightarrow> Inr (map (\<lambda>c. JStr [c]) s)
      | other \<Rightarrow> Inl TypeError)"

fun contains :: "string \<Rightarrow> string \<Rightarrow> bool" where
  "contains sub [] = (sub = [])"
| "contains sub (c # cs) = (take (length sub) (c # cs) = sub \<or> contains sub cs)"

definition py_index :: "'a list \<Rightarrow> int \<Rightarrow> error + 'a" where
  "py_index xs i =
     (if 0 \<le> i then
        (if i < int (length xs) then Inr (xs ! nat i) else Inl IndexError)
      else
        (if - int (length xs) \<le> i then Inr (xs ! nat (int (length xs) + i))
         else Inl IndexError))"

text \<open>
  \<open>update_delivery_display\<close> (lines 549-678). The delivery box exists whenever a
  handler runs: \<open>startup\<close> builds the delivery home screen (lines 164, 283). The labels
  put into the box are not part of the state; what the function leaves behind is the
  selected company, written to the settings, and the exception it may raise.

  The loop over the PO items of the current company (lines 634-678) tests five keys
  with \<open>key in po_item\<close> and then reads \<open>po_item[key]\<close>. On a dict this never raises.
  On a string the test is a substring test and the read raises \<open>TypeError\<close>; on a list
  the test is membership and the read raises \<open>TypeError\<close>; on a number, a boolean or
  \<open>null\<close> the test itself raises \<open>TypeError\<close>.
\<close>

definition item_keys :: "string list" where
  "item_keys =
     [''po_number'', ''description'', ''quantity'', ''pickup_date'', ''expected_delivery'']"

definition render_item :: "json \<Rightarrow> error option" where
  "render_item po_item =
     (case po_item of
        JObj kvs \<Rightarrow> None
      | JStr s \<Rightarrow> (if list_ex (\<lambda>k. contains k s) item_keys then Some TypeError else None)
      | JArr xs \<Rightarrow> (if list_ex (\<lambda>k. JStr k \<in> set xs) item_keys then Some TypeError else None)
      | other \<Rightarrow> Some TypeError)"

fun render_all :: "json list \<Rightarrow> error option" where
  "render_all [] = None"
| "render_all (po_item # rest) =
     (case render_item po_item of
        Some e \<Rightarrow> Some e
      | None \<Rightarrow> render_all rest)"

definition render_items :: "json \<Rightarrow> error option" where
  "render_items company_data =
     (case iter_items company_data of
        Inl e \<Rightarrow> Some e
      | Inr items \<Rightarrow> render_all items)"

definition update_delivery_display :: "app \<Rightarrow> error option \<times> app" where
  "update_delivery_display st =
     (if total_deliveries st = 0 then (None, st)
      else if current_delivery_index st < total_deliveries st then
        (case py_index (delivery_companies st) (current_delivery_index st) of
           Inl e \<Rightarrow> (Some e, st)
         | Inr current_company \<Rightarrow>
             (case delivery_api_response st of
                JObj resp \<Rightarrow>
                  (case map_of resp ''data'' of
                     None \<Rightarrow> (None, st)
                   | Some (JStr s) \<Rightarrow> (None, st)
                   | Some (JObj entries) \<Rightarrow>
                       (case map_of entries current_company of
                          None \<Rightarrow> (None, st)
                        | Some company_data \<Rightarrow>
                            (render_items company_data,
                             save_settings (st\<lparr>selected_company := current_company\<rparr>)))
                   | Some data_field \<Rightarrow> (None, st))
              | other \<Rightarrow> (Some AttributeError, st)))
      else (None, st))"

text \<open>
  \<open>previous_delivery\<close> and \<open>next_delivery\<close> (lines 680-694). Python's \<open>%\<close> on integers
  takes the sign of the divisor, as \<open>mod\<close> on \<open>int\<close> does. Both are button handlers:
  what the redraw raises reaches the caller, with the state as the redraw left it.
\<close>

definition previous_delivery :: "app \<Rightarrow> error option \<times> app" where
  "previous_delivery st =
     (if total_deliveries st = 0 then (None, st)
      else update_delivery_display
             (st\<lparr>current_delivery_index :=
                   (current_delivery_index st - 1) mod total_deliveries st\<rparr>))"

definition next_delivery :: "app \<Rightarrow> error option \<times> app" where
  "next_delivery st =
     (if total_deliveries st = 0 then (None, st)
      else update_delivery_display
             (st\<lparr>current_delivery_index :=
                   (current_delivery_index st + 1) mod total_deliveries st\<rparr>))"

text \<open>
  \<open>download_delivery_route\<close> (lines 429-520), with the server's answer as an argument.
  Everything after the request runs inside one \<open>try\<close>: an exception, also one of the
  redraw at line 470, ends in the "Failed to download" dialog, with the state as it is
  by then.
\<close>

definition download_delivery_route :: "json http_response \<Rightarrow> app \<Rightarrow> app" where
  "download_delivery_route response st =
     (if selected_route st = [] then show_dialog NoRoute st
      else
        (case response of
           NoResponse \<Rightarrow> show_dialog (FailedToDownload RequestException) st
         | Response status body \<Rightarrow>
             if status = 200 then
               (case body of
                  None \<Rightarrow> show_dialog (FailedToDownload JSONDecodeError) st
                | Some (JObj resp) \<Rightarrow>
                    if truthy (dict_get resp ''success'' JNull) then
                      (case write_json (JObj resp) (delivery_data_file st) of
                         Inl e \<Rightarrow> show_dialog (FailedToDownload e) st
                       | Inr f \<Rightarrow>
                           (let st1 = st\<lparr>delivery_data_file := f,
                                         delivery_api_response := JObj resp\<rparr>
                            in case map_of resp ''data'' of
                                 None \<Rightarrow> show_dialog NoDataField st1
                               | Some (JObj entries) \<Rightarrow>
                                   (case update_delivery_display
                                           (st1\<lparr>delivery_companies := keys entries,
                                                total_deliveries := int (length (keys entries)),
                                                current_delivery_index := 0\<rparr>) of
                                      (None, st2) \<Rightarrow>
                                        show_dialog
                                          (DownloadSuccess (int (length (keys entries)))) st2
                                    | (Some e, st2) \<Rightarrow> show_dialog (FailedToDownload e) st2)
                               | Some data_field \<Rightarrow> show_dialog (DataFormatError data_field) st1))
                    else show_dialog
                           (ApiReturnedError (dict_get resp ''error'' (JStr ''Unknown error''))) st
                | Some other \<Rightarrow> show_dialog (FailedToDownload AttributeError) st)
             else show_dialog (ServerReturnedStatus status) st))"

section \<open>PO record store\<close>

text \<open>
  Python list access at a non-negative index: out of range raises \<open>IndexError\<close>.
\<close>

definition list_get :: "'a list \<Rightarrow> nat \<Rightarrow> error + 'a" where
  "list_get xs i = (if i < length xs then Inr (xs ! i) else Inl IndexError)"

definition list_set :: "'a list \<Rightarrow> nat \<Rightarrow> 'a \<Rightarrow> error + 'a list" where
  "list_set xs i v = (if i < length xs then Inr (xs[i := v]) else Inl IndexError)"

definition list_pop :: "'a list \<Rightarrow> nat \<Rightarrow> error + 'a list" where
  "list_pop xs i = (if i < length xs then Inr (take i xs @ drop (Suc i) xs) else Inl IndexError)"

text \<open>
  \<open>load_pos\<close> (lines 2065-2105). The \<open>try\<close> block (2070-2078) is \<open>try_read_pos\<close>, its
  handler makes \<open>read_pos\<close>. The display loop that follows (2080-2105) runs outside the
  \<open>try\<close>: it walks over whatever the file held and calls \<open>po.get\<close> on each entry, which
  only a dict has, and makes one unchecked box per entry it gets through. The function
  is given the file as it is found on disk, which may hold any JSON value; the rows put
  on screen are not part of the state.
\<close>

definition try_read_pos :: "json json_file \<Rightarrow> error + json" where
  "try_read_pos f = (if path_exists f then read_json f else Inr (JArr []))"

definition read_pos :: "json json_file \<Rightarrow> json" where
  "read_pos f = (case try_read_pos f of Inl e \<Rightarrow> JArr [] | Inr pos \<Rightarrow> pos)"

fun display_rows :: "json list \<Rightarrow> bool list \<Rightarrow> error option \<times> bool list" where
  "display_rows [] boxes = (None, boxes)"
| "display_rows (po # rest) boxes =
     (case po of
        JObj kvs \<Rightarrow> display_rows rest (boxes @ [False])
      | other \<Rightarrow> (Some AttributeError, boxes))"

definition load_pos :: "json json_file \<Rightarrow> app \<Rightarrow> error option \<times> app" where
  "load_pos f st =
     (let st1 = st\<lparr>checkboxes := []\<rparr>
      in case iter_items (read_pos f) of
           Inl e \<Rightarrow> (Some e, st1)
         | Inr items \<Rightarrow>
             (case display_rows items (checkboxes st1) of
                (raised, boxes) \<Rightarrow> (raised, st1\<lparr>checkboxes := boxes\<rparr>)))"

text \<open>
  The state keeps the PO data file as the app itself writes it: where it is JSON, it
  is a list of PO objects. \<open>on_disk\<close> is that file as \<open>load_pos\<close> finds it.
\<close>

definition on_disk :: "po list json_file \<Rightarrow> json json_file" where
  "on_disk f =
     \<lparr>content = map_content (\<lambda>pos. JArr (map JObj pos)) (content f),
      writable = writable f\<rparr>"

text \<open>The indices of the checked boxes, as the three handlers collect them.\<close>

definition selected_indices :: "bool list \<Rightarrow> nat list" where
  "selected_indices boxes = map fst (filter snd (enumerate 0 boxes))"

text \<open>
  \<open>upload_selected\<close> (lines 2458-2532). \<open>prepare_po\<close> is the copy sent to the server;
  \<open>today\<close> is the current date as \<open>strftime\<close> formats it. The first loop runs outside
  any \<open>try\<close>: an exception there reaches the caller (\<open>Inl\<close>).
\<close>

definition prepare_po :: "string \<Rightarrow> string \<Rightarrow> po \<Rightarrow> po" where
  "prepare_po today driver po =
     (let po1 = (if \<not> has_key po ''pickup_date'' then dict_set ''pickup_date'' (JStr today) po else po);
          po2 = (if \<not> has_key po1 ''driver_id'' then dict_set ''driver_id'' (JStr driver) po1 else po1)
      in if map_of po2 ''uploaded'' = Some (JStr ''yes'') then dict_set ''uploaded'' (JBool True) po2
         else if map_of po2 ''uploaded'' = Some (JStr ''no'') then dict_set ''uploaded'' (JBool False) po2
         else po2)"

fun collect_uploads :: "string \<Rightarrow> string \<Rightarrow> po list \<Rightarrow> nat list \<Rightarrow> error + po list" where
  "collect_uploads today driver all_pos [] = Inr []"
| "collect_uploads today driver all_pos (i # rest) =
     (if i < length all_pos then
        (case list_get all_pos i of
           Inl e \<Rightarrow> Inl e
         | Inr po \<Rightarrow>
             (case collect_uploads today driver all_pos rest of
                Inl e \<Rightarrow> Inl e
              | Inr to_upload \<Rightarrow> Inr (prepare_po today driver po # to_upload)))
      else collect_uploads today driver all_pos rest)"

fun mark_uploaded :: "po list \<Rightarrow> nat list \<Rightarrow> error + po list" where
  "mark_uploaded all_pos [] = Inr all_pos"
| "mark_uploaded all_pos (i # rest) =
     (if i < length all_pos then
        (case list_get all_pos i of
           Inl e \<Rightarrow> Inl e
         | Inr po \<Rightarrow>
             (case list_set all_pos i (dict_set ''uploaded'' (JBool True) po) of
                Inl e \<Rightarrow> Inl e
              | Inr all_pos' \<Rightarrow> mark_uploaded all_pos' rest))
      else mark_uploaded all_pos rest)"

definition upload_selected :: "string \<Rightarrow> 'b http_response \<Rightarrow> app \<Rightarrow> error + app" where
  "upload_selected today response st =
     (let selected = selected_indices (checkboxes st) in
      if selected = [] then Inr (show_dialog NoSelectionToUpload st)
      else
        (case read_json (data_file st) of
           Inl e \<Rightarrow> Inr (show_dialog (CouldntLoadData e) st)
         | Inr all_pos \<Rightarrow>
             (case collect_uploads today (driver_id st) all_pos selected of
                Inl e \<Rightarrow> Inl e
              | Inr to_upload \<Rightarrow>
                  (case response of
                     NoResponse \<Rightarrow> Inr (show_dialog (UploadFailed RequestException) st)
                   | Response status body \<Rightarrow>
                       if status = 200 then
                         (case mark_uploaded all_pos selected of
                            Inl e \<Rightarrow> Inr (show_dialog (UploadFailed e) st)
                          | Inr marked \<Rightarrow>
                              (case write_json marked (data_file st) of
                                 Inl e \<Rightarrow> Inr (show_dialog (UploadFailed e) st)
                               | Inr f \<Rightarrow>
                                   (case load_pos (on_disk f) (st\<lparr>data_file := f\<rparr>) of
                                      (None, st') \<Rightarrow>
                                        Inr (show_dialog (UploadSuccess (length to_upload)) st')
                                    | (Some e, st') \<Rightarrow>
                                        Inr (show_dialog (UploadFailed e) st'))))
                       else Inr (show_dialog (ServerResponded status) st)))))"

text \<open>
  \<open>delete_selected\<close> (lines 2534-2576); \<open>sorted(selected, reverse=True)\<close> is the sorted
  list reversed. The loop runs outside any \<open>try\<close>.
\<close>

fun delete_indices :: "po list \<Rightarrow> nat list \<Rightarrow> error + po list" where
  "delete_indices pos [] = Inr pos"
| "delete_indices pos (i # rest) =
     (if i < length pos then
        (case list_pop pos i of
           Inl e \<Rightarrow> Inl e
         | Inr pos' \<Rightarrow> delete_indices pos' rest)
      else delete_indices pos rest)"

definition delete_selected :: "app \<Rightarrow> error + app" where
  "delete_selected st =
     (let selected = selected_indices (checkboxes st) in
      if selected = [] then Inr (show_dialog NoSelectionToDelete st)
      else
        (case read_json (data_file st) of
           Inl e \<Rightarrow> Inr (show_dialog (CouldntLoadData e) st)
         | Inr pos \<Rightarrow>
             (case delete_indices pos (rev (sort selected)) of
                Inl e \<Rightarrow> Inl e
              | Inr pos' \<Rightarrow>
                  (case write_json pos' (data_file st) of
                     Inl e \<Rightarrow> Inr (show_dialog (DeleteFailed e) st)
                   | Inr f \<Rightarrow>
                       (case load_pos (on_disk f) (st\<lparr>data_file := f\<rparr>) of
                          (None, st') \<Rightarrow>
                            Inr (show_dialog (DeleteSuccess (length selected)) st')
                        | (Some e, st') \<Rightarrow> Inr (show_dialog (DeleteFailed e) st'))))))"

section \<open>The add-PO form\<close>

text \<open>
  \<open>update_frequent_blades_list\<close> (lines 1844-1849), \<open>reset_form\<close> (2107-2116),
  \<open>show_company_selection\<close> (1163-1213) and \<open>show_add_po\<close> (2388-2410). Building the
  widgets of a screen changes no field of the state.
\<close>

definition update_frequent_blades_list :: "app \<Rightarrow> app" where
  "update_frequent_blades_list st =
     st\<lparr>frequent_blades :=
          (case map_of (company_database st) (selected_route st) of
             None \<Rightarrow> []
           | Some cs \<Rightarrow>
               (case map_of cs (selected_company st) of
                  None \<Rightarrow> []
                | Some data \<Rightarrow> dict_get data ''frequent_blades'' []))\<rparr>"

definition reset_form :: "app \<Rightarrow> app" where
  "reset_form st = update_frequent_blades_list (st\<lparr>editing_index := None\<rparr>)"

definition show_company_selection :: "app \<Rightarrow> app" where
  "show_company_selection st =
     (if selected_route st = [] then show_dialog NoRoute st
      else st\<lparr>main_window_content := CompanySelection\<rparr>)"

definition show_add_po :: "app \<Rightarrow> app" where
  "show_add_po st =
     (if selected_company st = [] then show_company_selection st
      else (update_frequent_blades_list (reset_form st))\<lparr>main_window_content := AddPO\<rparr>)"

text \<open>
  \<open>update_selected\<close> (lines 2578-2652). After the index check the entry is read and
  the form is filled from it; only the fields of the state are modelled, not the
  widgets. A \<open>company\<close> field that is not a string is outside the PO data model and
  leaves the selection as it is.
\<close>

definition edit_po :: "po \<Rightarrow> app \<Rightarrow> app" where
  "edit_po po_data st =
     (let st1 =
        (case dict_get po_data ''company'' (JStr []) of
           JStr company \<Rightarrow>
             if company \<noteq> [] \<and> company \<noteq> selected_company st
             then update_frequent_blades_list (save_settings (st\<lparr>selected_company := company\<rparr>))
             else st
         | other \<Rightarrow> st)
      in st1\<lparr>main_window_content := AddPO\<rparr>)"

definition update_selected :: "app \<Rightarrow> error + app" where
  "update_selected st =
     (let selected = selected_indices (checkboxes st) in
      if length selected \<noteq> 1 then Inr (show_dialog InvalidSelection st)
      else
        (case read_json (data_file st) of
           Inl e \<Rightarrow> Inr (show_dialog (CouldntLoadData e) st)
         | Inr pos \<Rightarrow>
             (case list_get selected 0 of
                Inl e \<Rightarrow> Inl e
              | Inr i \<Rightarrow>
                  if i \<ge> length pos then Inr (show_dialog InvalidPickUpForm st)
                  else
                    (case list_get pos i of
                       Inl e \<Rightarrow> Inl e
                     | Inr po_data \<Rightarrow> Inr (edit_po po_data (st\<lparr>editing_index := Some i\<rparr>))))))"

section \<open>Predicates of the properties\<close>

text \<open>
  The selection is valid when no company is selected or the selected company is a key
  under the selected route of the company database.
\<close>

definition selection_valid :: "app \<Rightarrow> bool" where
  "selection_valid st =
     (selected_company st = []
      \<or> (case map_of (company_database st) (selected_route st) of
            None \<Rightarrow> False
          | Some cs \<Rightarrow> has_key cs (selected_company st)))"

text \<open>
  What a refresh of the route and company lists leaves behind, from the state \<open>st\<close>
  before to the state \<open>st'\<close> after: a valid selection, the same route, and either the
  same company or no company, the cleared selection then being what the settings file
  holds (if the file can be written).
\<close>

definition selection_refreshed :: "app \<Rightarrow> app \<Rightarrow> bool" where
  "selection_refreshed st st' =
     (selection_valid st'
      \<and> selected_route st' = selected_route st
      \<and> (selected_company st' = selected_company st
          \<or> (selected_company st' = []
              \<and> (writable (settings_file st) \<longrightarrow>
                   content (settings_file st') = Json (settings_of st')))))"

text \<open>
  A company database as Python holds it: distinct routes, and distinct companies under
  each route. \<open>lookup_company\<close> is \<open>db[route][company]\<close> where both keys are there,
  \<open>blades\<close> is \<open>data.get("frequent_blades", [])\<close>.
\<close>

definition wf_db :: "company_db \<Rightarrow> bool" where
  "wf_db db = (wf_dict db \<and> list_all (\<lambda>(route, cs). wf_dict cs) db)"

definition lookup_company :: "company_db \<Rightarrow> string \<Rightarrow> string \<Rightarrow> company_data option" where
  "lookup_company db route company =
     (case map_of db route of None \<Rightarrow> None | Some cs \<Rightarrow> map_of cs company)"

definition blades :: "company_data \<Rightarrow> string list" where
  "blades data = dict_get data ''frequent_blades'' []"

text \<open>
  What the model asks of \<open>list(set(xs))\<close>: the elements of \<open>xs\<close>, each once, in some
  order.
\<close>

definition set_order_ok :: "set_order \<Rightarrow> bool" where
  "set_order_ok list_of_set = (\<forall>xs. set (list_of_set xs) = set xs \<and> distinct (list_of_set xs))"

text \<open>
  The entry the merge loop leaves for a company found on both sides, and the company
  database as the specification's data model reads it: routes to companies to the
  \<^emph>\<open>set\<close> of frequent blades.
\<close>

definition merged_data :: "set_order \<Rightarrow> company_data \<Rightarrow> company_data \<Rightarrow> company_data" where
  "merged_data list_of_set existing_data data =
     dict_set ''frequent_blades'' (list_of_set (blades existing_data @ blades data)) existing_data"

definition abs_db :: "company_db \<Rightarrow> string \<Rightarrow> (string \<Rightarrow> string set option) option" where
  "abs_db db route =
     map_option (\<lambda>cs company. map_option (\<lambda>data. set (blades data)) (map_of cs company))
       (map_of db route)"

text \<open>
  The PO list after a successful upload: the entries at the selected positions get
  \<open>"uploaded": true\<close>, every other entry is as it was.
\<close>

definition mark_po :: "po \<Rightarrow> po" where
  "mark_po po = dict_set ''uploaded'' (JBool True) po"

definition marked :: "nat list \<Rightarrow> po list \<Rightarrow> po list" where
  "marked selected all_pos =
     map (\<lambda>(i, po). if i \<in> set selected then mark_po po else po) (enumerate 0 all_pos)"

section \<open>A fresh installation\<close>

text \<open>
  The state \<open>__init__\<close> (lines 73-125) builds, on a device whose data directory is
  still empty and can be written.
\<close>

definition absent_file :: "'a json_file" where
  "absent_file = \<lparr>content = Missing, writable = True\<rparr>"

definition new_app :: app where
  "new_app =
     \<lparr>upload_url = ''https://doublersharpening.com/api/upload_po/'',
      company_db_url = ''https://doublersharpening.com/api/company_db/'',
      delivery_url = ''https://doublersharpening.com/api/delivery_pos/'',
      selected_route = [],
      selected_company = [],
      driver_id = [],
      app_mode = ''delivery'',
      settings_file = absent_file,
      company_database = [],
      company_db_file = absent_file,
      available_routes = [],
      company_names = [],
      frequent_blades = [],
      data_file = absent_file,
      checkboxes = [],
      editing_index = None,
      delivery_data_file = absent_file,
      delivery_api_response = JObj [],
      delivery_companies = [],
      current_delivery_index = 0,
      total_deliveries = 0,
      main_window_content = RouteSelection,
      dialogs = []\<rparr>"

section \<open>Concrete inputs\<close>

text \<open>States and server answers at which the properties below are evaluated.\<close>

definition route_app :: app where
  "route_app = new_app\<lparr>selected_route := ''R1''\<rparr>"

definition no_blades_app :: app where
  "no_blades_app =
     new_app\<lparr>selected_route := ''R1'', selected_company := ''A'',
             company_database := [(''R1'', [(''A'', [(''frequent_blades'', [])])])]\<rparr>"

definition bad_data_body :: json where
  "bad_data_body = JObj [(''success'', JBool True), (''data'', JArr [])]"

definition good_body :: json where
  "good_body =
     JObj [(''success'', JBool True),
           (''data'', JObj [(''Acme'', JArr []), (''Bolt'', JArr [])])]"

definition malformed_file :: "json json_file" where
  "malformed_file = \<lparr>content = Malformed, writable = True\<rparr>"

definition stale_app :: app where
  "stale_app =
     new_app\<lparr>selected_route := ''R1'', selected_company := ''Gone'',
             company_database := [(''R1'', [(''A'', [(''frequent_blades'', [''x''])])])]\<rparr>"

definition example_local :: company_db where
  "example_local = [(''R1'', [(''A'', [(''frequent_blades'', [''x''])])])]"

definition example_remote :: company_db where
  "example_remote = [(''R1'', [(''A'', [(''descriptions'', [''x'', ''y''])])])]"

definition local_r2_app :: app where
  "local_r2_app =
     new_app\<lparr>company_database := [(''R2'', [(''B'', [(''frequent_blades'', [''z''])])])]\<rparr>"

definition dup_remote :: company_db where
  "dup_remote = [(''R1'', [(''A'', [(''descriptions'', [''x'', ''x''])])])]"

definition po_a :: po where
  "po_a = [(''uploaded'', JStr ''no''), (''description'', JStr ''saw'')]"

definition po_b :: po where
  "po_b = [(''uploaded'', JStr ''no''), (''description'', JStr ''knife'')]"

definition stale_boxes_app :: app where
  "stale_boxes_app =
     new_app\<lparr>data_file := \<lparr>content = Json [po_a, po_b], writable = True\<rparr>,
             checkboxes := [True, False, True]\<rparr>"

definition bad_items_body :: json where
  "bad_items_body = JObj [(''success'', JBool True), (''data'', JObj [(''Acme'', JNum 5)])]"

definition wrong_shape_file :: "json json_file" where
  "wrong_shape_file = \<lparr>content = Json (JArr [JNum 1]), writable = True\<rparr>"

section \<open>Properties\<close>

subsection \<open>Browsing the deliveries\<close>

lemma update_display_frame [simp]:
  "current_delivery_index (snd (update_delivery_display st)) = current_delivery_index st"
  "total_deliveries (snd (update_delivery_display st)) = total_deliveries st"
  "delivery_companies (snd (update_delivery_display st)) = delivery_companies st"
  "delivery_data_file (snd (update_delivery_display st)) = delivery_data_file st"
  "delivery_api_response (snd (update_delivery_display st)) = delivery_api_response st"
  "dialogs (snd (update_delivery_display st)) = dialogs st"
  "selected_route (snd (update_delivery_display st)) = selected_route st"
  by (simp_all add: update_delivery_display_def save_settings_def write_json_def
      split: sum.splits json.splits option.splits)

text \<open>
  Claim C6. With \<open>total_deliveries = n > 0\<close> and cursor \<open>i\<close>, \<open>next_delivery\<close> moves the
  cursor to \<open>(i + 1) mod n\<close> and \<open>previous_delivery\<close> to \<open>(i - 1) mod n\<close>, both inside
  \<open>0..<n\<close>, whatever the redraw that follows does; with \<open>n = 0\<close> both return at once
  and leave the state as it is. With \<open>n = 3\<close>, previous from 0 gives 2 and next from 2
  gives 0.
\<close>

theorem delivery_cursor_cyclic:
  "(0 < total_deliveries st \<longrightarrow>
      current_delivery_index (snd (next_delivery st))
        = (current_delivery_index st + 1) mod total_deliveries st
    \<and> current_delivery_index (snd (previous_delivery st))
        = (current_delivery_index st - 1) mod total_deliveries st
    \<and> 0 \<le> current_delivery_index (snd (next_delivery st))
    \<and> current_delivery_index (snd (next_delivery st)) < total_deliveries st
    \<and> 0 \<le> current_delivery_index (snd (previous_delivery st))
    \<and> current_delivery_index (snd (previous_delivery st)) < total_deliveries st)
   \<and> (total_deliveries st = 0 \<longrightarrow>
        next_delivery st = (None, st) \<and> previous_delivery st = (None, st))
   \<and> (total_deliveries st = 3 \<and> current_delivery_index st = 0 \<longrightarrow>
        current_delivery_index (snd (previous_delivery st)) = 2)
   \<and> (total_deliveries st = 3 \<and> current_delivery_index st = 2 \<longrightarrow>
        current_delivery_index (snd (next_delivery st)) = 0)"
  by (simp add: next_delivery_def previous_delivery_def)

theorem delivery_cursor_cyclic_witness:
  "current_delivery_index
     (snd (previous_delivery (new_app\<lparr>total_deliveries := 3, current_delivery_index := 0\<rparr>))) = 2
   \<and> current_delivery_index
     (snd (next_delivery (new_app\<lparr>total_deliveries := 3, current_delivery_index := 0\<rparr>))) = 1"
  using delivery_cursor_cyclic [of "new_app\<lparr>total_deliveries := 3, current_delivery_index := 0\<rparr>"]
  by simp

subsection \<open>Downloading a delivery route\<close>

lemma length_keys [simp]: "length (keys d) = length d"
  by (simp add: keys_def)

lemma update_display_first:
  assumes "delivery_api_response s = JObj resp" and "map_of resp ''data'' = Some (JObj entries)"
    and "delivery_companies s = keys entries"
    and "total_deliveries s = int (length (keys entries))"
    and "current_delivery_index s = 0"
  shows "entries = [] \<Longrightarrow> update_delivery_display s = (None, s)"
    and "entries = (c, v) # rest \<Longrightarrow>
         update_delivery_display s
           = (render_items v, save_settings (s\<lparr>selected_company := c\<rparr>))"
  using assms by (simp_all add: update_delivery_display_def py_index_def keys_def)

lemma download_status:
  "selected_route st \<noteq> [] \<Longrightarrow> status \<noteq> 200 \<Longrightarrow>
   download_delivery_route (Response status body) st
     = show_dialog (ServerReturnedStatus status) st"
  by (simp add: download_delivery_route_def)

lemma download_api_error:
  "selected_route st \<noteq> [] \<Longrightarrow> \<not> truthy (dict_get resp ''success'' JNull) \<Longrightarrow>
   download_delivery_route (Response 200 (Some (JObj resp))) st
     = show_dialog (ApiReturnedError (dict_get resp ''error'' (JStr ''Unknown error''))) st"
  by (simp add: download_delivery_route_def)

lemma download_mapping:
  assumes "selected_route st \<noteq> []" and "truthy (dict_get resp ''success'' JNull)"
    and "writable (delivery_data_file st)" and "map_of resp ''data'' = Some (JObj entries)"
  shows "download_delivery_route (Response 200 (Some (JObj resp))) st
     = (case update_delivery_display
              (st\<lparr>delivery_data_file := (delivery_data_file st)\<lparr>content := Json (JObj resp)\<rparr>,
                  delivery_api_response := JObj resp,
                  delivery_companies := keys entries,
                  total_deliveries := int (length entries),
                  current_delivery_index := 0\<rparr>) of
          (None, st2) \<Rightarrow> show_dialog (DownloadSuccess (int (length entries))) st2
        | (Some e, st2) \<Rightarrow> show_dialog (FailedToDownload e) st2)"
  using assms
  by (simp add: download_delivery_route_def write_json_def Let_def
      split: prod.splits option.splits)

lemma download_empty:
  assumes "selected_route st \<noteq> []" and "truthy (dict_get resp ''success'' JNull)"
    and "writable (delivery_data_file st)" and "map_of resp ''data'' = Some (JObj [])"
  shows "download_delivery_route (Response 200 (Some (JObj resp))) st
     = show_dialog (DownloadSuccess 0)
         (st\<lparr>delivery_data_file := (delivery_data_file st)\<lparr>content := Json (JObj resp)\<rparr>,
             delivery_api_response := JObj resp,
             delivery_companies := [],
             total_deliveries := 0,
             current_delivery_index := 0\<rparr>)"
  unfolding download_mapping [OF assms]
  by (simp add: update_delivery_display_def keys_def)

lemma download_first_company:
  assumes "selected_route st \<noteq> []" and "truthy (dict_get resp ''success'' JNull)"
    and "writable (delivery_data_file st)"
    and "map_of resp ''data'' = Some (JObj ((c, v) # rest))"
  shows "download_delivery_route (Response 200 (Some (JObj resp))) st
     = show_dialog
         (case render_items v of
            None \<Rightarrow> DownloadSuccess (int (length ((c, v) # rest)))
          | Some e \<Rightarrow> FailedToDownload e)
         (save_settings
            (st\<lparr>delivery_data_file := (delivery_data_file st)\<lparr>content := Json (JObj resp)\<rparr>,
                delivery_api_response := JObj resp,
                delivery_companies := keys ((c, v) # rest),
                total_deliveries := int (length ((c, v) # rest)),
                current_delivery_index := 0,
                selected_company := c\<rparr>))"
proof -
  let ?s = "st\<lparr>delivery_data_file := (delivery_data_file st)\<lparr>content := Json (JObj resp)\<rparr>,
                delivery_api_response := JObj resp,
                delivery_companies := keys ((c, v) # rest),
                total_deliveries := int (length ((c, v) # rest)),
                current_delivery_index := 0\<rparr>"
  have "update_delivery_display ?s
          = (render_items v, save_settings (?s\<lparr>selected_company := c\<rparr>))"
    by (rule update_display_first(2) [where resp = resp and entries = "(c, v) # rest"])
       (simp_all add: assms(4) keys_def)
  then show ?thesis
    unfolding download_mapping [OF assms]
    by (simp split: option.splits)
qed

lemma download_saved:
  assumes "selected_route st \<noteq> []" and "truthy (dict_get resp ''success'' JNull)"
    and "writable (delivery_data_file st)"
  shows "content (delivery_data_file (download_delivery_route (Response 200 (Some (JObj resp))) st))
     = Json (JObj resp)
   \<and> delivery_api_response (download_delivery_route (Response 200 (Some (JObj resp))) st)
     = JObj resp"
proof (cases "\<exists>entries. map_of resp ''data'' = Some (JObj entries)")
  case True
  then obtain entries where e: "map_of resp ''data'' = Some (JObj entries)" by blast
  obtain raised st2 where u: "update_delivery_display
              (st\<lparr>delivery_data_file := (delivery_data_file st)\<lparr>content := Json (JObj resp)\<rparr>,
                  delivery_api_response := JObj resp,
                  delivery_companies := keys entries,
                  total_deliveries := int (length entries),
                  current_delivery_index := 0\<rparr>) = (raised, st2)"
    by (cases "update_delivery_display
              (st\<lparr>delivery_data_file := (delivery_data_file st)\<lparr>content := Json (JObj resp)\<rparr>,
                  delivery_api_response := JObj resp,
                  delivery_companies := keys entries,
                  total_deliveries := int (length entries),
                  current_delivery_index := 0\<rparr>)") auto
  have "delivery_data_file st2 = (delivery_data_file st)\<lparr>content := Json (JObj resp)\<rparr>"
    and "delivery_api_response st2 = JObj resp"
    using update_display_frame(4,5) [of "st\<lparr>delivery_data_file := (delivery_data_file st)\<lparr>content := Json (JObj resp)\<rparr>,
                  delivery_api_response := JObj resp,
                  delivery_companies := keys entries,
                  total_deliveries := int (length entries),
                  current_delivery_index := 0\<rparr>"] u by simp_all
  then show ?thesis
    unfolding download_mapping [OF assms e] u
    by (simp add: show_dialog_def split: option.splits)
next
  case False
  then show ?thesis
    using assms
    by (simp add: download_delivery_route_def write_json_def show_dialog_def Let_def
        split: option.splits json.splits)
qed

lemma download_not_mapping:
  "selected_route st \<noteq> [] \<Longrightarrow> truthy (dict_get resp ''success'' JNull) \<Longrightarrow>
   writable (delivery_data_file st) \<Longrightarrow> map_of resp ''data'' = Some d \<Longrightarrow>
   (\<forall>entries. d \<noteq> JObj entries) \<Longrightarrow>
   download_delivery_route (Response 200 (Some (JObj resp))) st
     = show_dialog (DataFormatError d)
          (st\<lparr>delivery_data_file := (delivery_data_file st)\<lparr>content := Json (JObj resp)\<rparr>,
              delivery_api_response := JObj resp\<rparr>)"
  by (cases d) (simp_all add: download_delivery_route_def write_json_def show_dialog_def Let_def)

lemma download_no_data:
  "selected_route st \<noteq> [] \<Longrightarrow> truthy (dict_get resp ''success'' JNull) \<Longrightarrow>
   writable (delivery_data_file st) \<Longrightarrow> map_of resp ''data'' = None \<Longrightarrow>
   download_delivery_route (Response 200 (Some (JObj resp))) st
     = show_dialog NoDataField
          (st\<lparr>delivery_data_file := (delivery_data_file st)\<lparr>content := Json (JObj resp)\<rparr>,
              delivery_api_response := JObj resp\<rparr>)"
  by (simp add: download_delivery_route_def write_json_def show_dialog_def Let_def)

lemma download_written_only_on_success:
  assumes "delivery_data_file (download_delivery_route response st) \<noteq> delivery_data_file st"
  shows "\<exists>resp. response = Response 200 (Some (JObj resp)) \<and> truthy (dict_get resp ''success'' JNull)"
proof (rule ccontr)
  assume n: "\<not> (\<exists>resp. response = Response 200 (Some (JObj resp))
                 \<and> truthy (dict_get resp ''success'' JNull))"
  have "\<exists>d. download_delivery_route response st = show_dialog d st"
    using n
    by (auto simp: download_delivery_route_def split: http_response.splits option.splits json.splits)
  then show False using assms by (auto simp: show_dialog_def)
qed

lemma download_failed:
  "selected_route st \<noteq> [] \<Longrightarrow>
   response = NoResponse \<or> response = Response 200 None
     \<or> (\<exists>v. response = Response 200 (Some v) \<and> (\<forall>resp. v \<noteq> JObj resp)) \<Longrightarrow>
   \<exists>e. download_delivery_route response st = show_dialog (FailedToDownload e) st"
  by (auto simp: download_delivery_route_def show_dialog_def
      split: option.splits json.splits http_response.splits)

text \<open>
  Claim C5, as stated, says that nothing is persisted when the \<open>data\<close> field is not a
  mapping. The code writes the cache file as soon as \<open>success\<close> is truthy, before it
  looks at \<open>data\<close>: with the answer \<open>{"success": true, "data": []}\<close> the file, absent
  before, holds the answer afterwards, and the dialog is the data-format error.
\<close>

theorem download_persists_bad_data:
  "content (delivery_data_file route_app) = Missing
   \<and> content (delivery_data_file
        (download_delivery_route (Response 200 (Some bad_data_body)) route_app))
       = Json bad_data_body
   \<and> dialogs (download_delivery_route (Response 200 (Some bad_data_body)) route_app)
       = [DataFormatError (JArr [])]"
  by (simp add: download_delivery_route_def bad_data_body_def route_app_def new_app_def
      absent_file_def dict_get_def write_json_def show_dialog_def)

text \<open>
  Claim C5, amended. With a route selected: a status other than 200 and a falsy
  \<open>success\<close> persist nothing and change nothing but the dialog shown; a 200 answer
  that is an object with a truthy \<open>success\<close> is written verbatim to the cache file
  (when the file can be written) whatever its \<open>data\<close> field is. When \<open>data\<close> is a
  mapping, the company list is its keys, the count their number and the cursor 0; the
  redraw then selects the first company and writes the settings, and the dialog is
  the success dialog if the items of that company can be drawn and "Failed to
  download" with the redraw's exception if not. A missing \<open>data\<close>, a \<open>data\<close> of
  another type, an API error, a server status and a failed request each show a
  dialog of their own; and the cache file changes only on a 200 answer with a truthy
  \<open>success\<close>.
\<close>

theorem download_delivery_route_outcomes:
  assumes "selected_route st \<noteq> []"
  shows
    "(status \<noteq> 200 \<longrightarrow>
        download_delivery_route (Response status body) st
          = show_dialog (ServerReturnedStatus status) st)
     \<and> (\<not> truthy (dict_get resp ''success'' JNull) \<longrightarrow>
        download_delivery_route (Response 200 (Some (JObj resp))) st
          = show_dialog (ApiReturnedError (dict_get resp ''error'' (JStr ''Unknown error''))) st)
     \<and> (truthy (dict_get resp ''success'' JNull) \<and> writable (delivery_data_file st) \<longrightarrow>
        content (delivery_data_file
                   (download_delivery_route (Response 200 (Some (JObj resp))) st))
          = Json (JObj resp)
        \<and> (map_of resp ''data'' = Some (JObj []) \<longrightarrow>
             download_delivery_route (Response 200 (Some (JObj resp))) st
               = show_dialog (DownloadSuccess 0)
                   (st\<lparr>delivery_data_file :=
                          (delivery_data_file st)\<lparr>content := Json (JObj resp)\<rparr>,
                       delivery_api_response := JObj resp,
                       delivery_companies := [],
                       total_deliveries := 0,
                       current_delivery_index := 0\<rparr>))
        \<and> (\<forall>c v rest. map_of resp ''data'' = Some (JObj ((c, v) # rest)) \<longrightarrow>
             download_delivery_route (Response 200 (Some (JObj resp))) st
               = show_dialog
                   (case render_items v of
                      None \<Rightarrow> DownloadSuccess (int (length ((c, v) # rest)))
                    | Some e \<Rightarrow> FailedToDownload e)
                   (save_settings
                      (st\<lparr>delivery_data_file :=
                             (delivery_data_file st)\<lparr>content := Json (JObj resp)\<rparr>,
                          delivery_api_response := JObj resp,
                          delivery_companies := keys ((c, v) # rest),
                          total_deliveries := int (length ((c, v) # rest)),
                          current_delivery_index := 0,
                          selected_company := c\<rparr>)))
        \<and> (\<forall>d. map_of resp ''data'' = Some d \<and> (\<forall>entries. d \<noteq> JObj entries) \<longrightarrow>
             download_delivery_route (Response 200 (Some (JObj resp))) st
               = show_dialog (DataFormatError d)
                   (st\<lparr>delivery_data_file :=
                          (delivery_data_file st)\<lparr>content := Json (JObj resp)\<rparr>,
                       delivery_api_response := JObj resp\<rparr>))
        \<and> (map_of resp ''data'' = None \<longrightarrow>
             download_delivery_route (Response 200 (Some (JObj resp))) st
               = show_dialog NoDataField
                   (st\<lparr>delivery_data_file :=
                          (delivery_data_file st)\<lparr>content := Json (JObj resp)\<rparr>,
                       delivery_api_response := JObj resp\<rparr>)))
     \<and> (response = NoResponse \<or> response = Response 200 None \<longrightarrow>
        (\<exists>e. download_delivery_route response st = show_dialog (FailedToDownload e) st))
     \<and> (delivery_data_file (download_delivery_route response st) \<noteq> delivery_data_file st \<longrightarrow>
        (\<exists>r. response = Response 200 (Some (JObj r)) \<and> truthy (dict_get r ''success'' JNull)))"
proof -
  note sel = assms
  have a: "status \<noteq> 200 \<longrightarrow>
        download_delivery_route (Response status body) st
          = show_dialog (ServerReturnedStatus status) st"
    using download_status [OF sel] by blast
  have b: "\<not> truthy (dict_get resp ''success'' JNull) \<longrightarrow>
        download_delivery_route (Response 200 (Some (JObj resp))) st
          = show_dialog (ApiReturnedError (dict_get resp ''error'' (JStr ''Unknown error''))) st"
    using download_api_error [OF sel] by blast
  have c: "response = NoResponse \<or> response = Response 200 None \<longrightarrow>
        (\<exists>e. download_delivery_route response st = show_dialog (FailedToDownload e) st)"
    using download_failed [OF sel, of response] by blast
  have d: "delivery_data_file (download_delivery_route response st) \<noteq> delivery_data_file st \<longrightarrow>
        (\<exists>r. response = Response 200 (Some (JObj r)) \<and> truthy (dict_get r ''success'' JNull))"
    using download_written_only_on_success [of response st] by blast
  show ?thesis
    using a b c d download_saved [OF sel, of resp] download_empty [OF sel, of resp]
      download_first_company [OF sel, of resp]
      download_not_mapping [OF sel, of resp] download_no_data [OF sel, of resp]
    by blast
qed

theorem download_delivery_route_outcomes_witness:
  "download_delivery_route (Response 500 None) route_app
     = show_dialog (ServerReturnedStatus 500) route_app
   \<and> download_delivery_route (Response 200 (Some (JObj [(''success'', JBool False)]))) route_app
     = show_dialog (ApiReturnedError (JStr ''Unknown error'')) route_app
   \<and> download_delivery_route (Response 200 (Some good_body)) route_app
     = show_dialog (DownloadSuccess 2)
         (route_app\<lparr>delivery_data_file := \<lparr>content = Json good_body, writable = True\<rparr>,
                    delivery_api_response := good_body,
                    delivery_companies := [''Acme'', ''Bolt''],
                    total_deliveries := 2,
                    current_delivery_index := 0,
                    selected_company := ''Acme'',
                    settings_file :=
                      \<lparr>content = Json (settings_of (route_app\<lparr>selected_company := ''Acme''\<rparr>)),
                       writable = True\<rparr>\<rparr>)
   \<and> download_delivery_route (Response 200 (Some bad_items_body)) route_app
     = show_dialog (FailedToDownload TypeError)
         (route_app\<lparr>delivery_data_file := \<lparr>content = Json bad_items_body, writable = True\<rparr>,
                    delivery_api_response := bad_items_body,
                    delivery_companies := [''Acme''],
                    total_deliveries := 1,
                    current_delivery_index := 0,
                    selected_company := ''Acme'',
                    settings_file :=
                      \<lparr>content = Json (settings_of (route_app\<lparr>selected_company := ''Acme''\<rparr>)),
                       writable = True\<rparr>\<rparr>)
   \<and> download_delivery_route (Response 200 (Some bad_data_body)) route_app
     = show_dialog (DataFormatError (JArr []))
         (route_app\<lparr>delivery_data_file := \<lparr>content = Json bad_data_body, writable = True\<rparr>,
                    delivery_api_response := bad_data_body\<rparr>)"
proof -
  have sel: "selected_route route_app \<noteq> []"
    by (simp add: route_app_def)
  have w: "writable (delivery_data_file route_app)"
    by (simp add: route_app_def new_app_def absent_file_def)
  have f: "delivery_data_file route_app = \<lparr>content = Missing, writable = True\<rparr>"
    "settings_file route_app = \<lparr>content = Missing, writable = True\<rparr>"
    by (simp_all add: route_app_def new_app_def absent_file_def)
  have r: "render_items (JArr []) = None" "render_items (JNum 5) = Some TypeError"
    by (simp_all add: render_items_def iter_items_def)
  have s: "\<And>st. settings_file st = \<lparr>content = Missing, writable = True\<rparr> \<Longrightarrow>
             save_settings st
               = st\<lparr>settings_file := \<lparr>content = Json (settings_of st), writable = True\<rparr>\<rparr>"
    by (simp add: save_settings_def write_json_def)
  show ?thesis
    using download_delivery_route_outcomes [OF sel, of 500 None "[(''success'', JBool False)]"
        NoResponse]
      download_delivery_route_outcomes [OF sel, of 200 None
        "[(''success'', JBool True), (''data'', JObj [(''Acme'', JArr []), (''Bolt'', JArr [])])]"
        NoResponse]
      download_delivery_route_outcomes [OF sel, of 200 None
        "[(''success'', JBool True), (''data'', JObj [(''Acme'', JNum 5)])]" NoResponse]
      download_delivery_route_outcomes [OF sel, of 200 None
        "[(''success'', JBool True), (''data'', JArr [])]" NoResponse]
      w
    by (simp add: good_body_def bad_data_body_def bad_items_body_def dict_get_def keys_def
        r s f settings_of_def)
qed

subsection \<open>Opening the add-PO form\<close>

text \<open>
  Claim C7, as stated, says that opening the add-PO form for a selected company with
  no frequent blades leads to company management. \<open>show_add_po\<close> only checks that a
  company is selected: for company A of route R1, stored with an empty blade list,
  the add-PO screen is shown, with no blade to choose from.
\<close>

theorem show_add_po_opens_without_blades:
  "selected_company no_blades_app = ''A''
   \<and> company_database no_blades_app = [(''R1'', [(''A'', [(''frequent_blades'', [])])])]
   \<and> main_window_content (show_add_po no_blades_app) = AddPO
   \<and> frequent_blades (show_add_po no_blades_app) = []"
  by (simp add: no_blades_app_def show_add_po_def update_frequent_blades_list_def
      reset_form_def new_app_def dict_get_def)

text \<open>
  Claim C7, amended. \<open>show_add_po\<close> opens the add-PO form whenever some company is
  selected, whether or not it has frequent blades, with the blade list of the form
  read from the company database; with no company selected it shows the company
  selection instead (or, with no route either, only the dialog asking for a route).
\<close>

theorem show_add_po_gate:
  "(selected_company st \<noteq> [] \<longrightarrow>
      main_window_content (show_add_po st) = AddPO
      \<and> frequent_blades (show_add_po st) = frequent_blades (update_frequent_blades_list st)
      \<and> editing_index (show_add_po st) = None)
   \<and> (selected_company st = [] \<and> selected_route st \<noteq> [] \<longrightarrow>
      show_add_po st = st\<lparr>main_window_content := CompanySelection\<rparr>)
   \<and> (selected_company st = [] \<and> selected_route st = [] \<longrightarrow>
      show_add_po st = show_dialog NoRoute st)"
  by (simp add: show_add_po_def update_frequent_blades_list_def reset_form_def
      show_company_selection_def cong: option.case_cong)

theorem show_add_po_gate_witness:
  "main_window_content (show_add_po no_blades_app) = AddPO
   \<and> editing_index (show_add_po no_blades_app) = None
   \<and> show_add_po route_app = route_app\<lparr>main_window_content := CompanySelection\<rparr>
   \<and> show_add_po new_app = show_dialog NoRoute new_app"
  using show_add_po_gate [of no_blades_app] show_add_po_gate [of route_app]
    show_add_po_gate [of new_app]
  by (simp add: no_blades_app_def route_app_def new_app_def)

subsection \<open>Loading the PO list\<close>

lemma display_rows_objects:
  "display_rows (map JObj pos) boxes = (None, boxes @ replicate (length pos) False)"
  by (induction pos arbitrary: boxes) (simp_all add: replicate_app_Cons_same)

lemma load_pos_default:
  "read_pos f = JArr [] \<Longrightarrow> load_pos f st = (None, st\<lparr>checkboxes := []\<rparr>)"
  by (simp add: load_pos_def iter_items_def)

lemma load_pos_objects:
  "content f = Json (JArr (map JObj pos)) \<Longrightarrow>
   load_pos f st = (None, st\<lparr>checkboxes := replicate (length pos) False\<rparr>)"
  by (simp add: load_pos_def read_pos_def try_read_pos_def path_exists_def read_json_def
      iter_items_def display_rows_objects)

lemma read_pos_not_json:
  "(\<forall>v. content f \<noteq> Json v) \<Longrightarrow> read_pos f = JArr []"
  by (cases "content f") (simp_all add: read_pos_def try_read_pos_def path_exists_def read_json_def)

lemma load_pos_on_disk:
  "load_pos (on_disk f) st
     = (None, st\<lparr>checkboxes :=
                   replicate (length (case content f of Json pos \<Rightarrow> pos | other \<Rightarrow> [])) False\<rparr>)"
  by (cases "content f")
     (simp_all add: on_disk_def load_pos_objects load_pos_default read_pos_not_json)

text \<open>
  Claim C8, as stated, says that loading the PO list never raises, whatever the PO data
  file holds. The \<open>try\<close> block guards the read only: a file that holds the valid JSON
  \<open>[1]\<close> is read, and the display loop then raises \<open>AttributeError\<close> on its entry.
\<close>

theorem load_pos_raises_on_wrong_shape:
  "try_read_pos wrong_shape_file = Inr (JArr [JNum 1])
   \<and> load_pos wrong_shape_file new_app = (Some AttributeError, new_app)"
  by (simp add: wrong_shape_file_def load_pos_def read_pos_def try_read_pos_def path_exists_def
      read_json_def iter_items_def new_app_def)

text \<open>
  Claim C8, amended. Every exception of the read (an unreadable file, a file that is
  not JSON) ends in the empty list, and so does an absent file: \<open>load_pos\<close> then
  returns normally with no box. A file that holds a JSON list of objects is loaded as
  it is, with one unchecked box per entry. \<open>load_pos\<close> raises only on a file that
  holds valid JSON which is not a list of objects.
\<close>

theorem load_pos_outcomes:
  "(\<forall>e. try_read_pos f = Inl e \<longrightarrow>
       read_pos f = JArr [] \<and> load_pos f st = (None, st\<lparr>checkboxes := []\<rparr>))
   \<and> (content f = Malformed \<longrightarrow>
        try_read_pos f = Inl JSONDecodeError \<and> load_pos f st = (None, st\<lparr>checkboxes := []\<rparr>))
   \<and> (content f = Unreadable \<longrightarrow>
        try_read_pos f = Inl OSError \<and> load_pos f st = (None, st\<lparr>checkboxes := []\<rparr>))
   \<and> (content f = Missing \<longrightarrow> load_pos f st = (None, st\<lparr>checkboxes := []\<rparr>))
   \<and> (\<forall>pos. content f = Json (JArr (map JObj pos)) \<longrightarrow>
         read_pos f = JArr (map JObj pos)
         \<and> load_pos f st = (None, st\<lparr>checkboxes := replicate (length pos) False\<rparr>))
   \<and> (fst (load_pos f st) \<noteq> None \<longrightarrow>
        (\<exists>v. content f = Json v \<and> (\<forall>pos. v \<noteq> JArr (map JObj pos))))"
proof -
  have err: "\<forall>e. try_read_pos f = Inl e \<longrightarrow>
       read_pos f = JArr [] \<and> load_pos f st = (None, st\<lparr>checkboxes := []\<rparr>)"
    by (simp add: load_pos_default read_pos_def)
  have mal: "content f = Malformed \<longrightarrow>
        try_read_pos f = Inl JSONDecodeError \<and> load_pos f st = (None, st\<lparr>checkboxes := []\<rparr>)"
    by (simp add: load_pos_default read_pos_not_json)
       (simp add: try_read_pos_def path_exists_def read_json_def)
  have unr: "content f = Unreadable \<longrightarrow>
        try_read_pos f = Inl OSError \<and> load_pos f st = (None, st\<lparr>checkboxes := []\<rparr>)"
    by (simp add: load_pos_default read_pos_not_json)
       (simp add: try_read_pos_def path_exists_def read_json_def)
  have mis: "content f = Missing \<longrightarrow> load_pos f st = (None, st\<lparr>checkboxes := []\<rparr>)"
    by (simp add: load_pos_default read_pos_not_json)
  have obj: "\<forall>pos. content f = Json (JArr (map JObj pos)) \<longrightarrow>
         read_pos f = JArr (map JObj pos)
         \<and> load_pos f st = (None, st\<lparr>checkboxes := replicate (length pos) False\<rparr>)"
    by (simp add: load_pos_objects)
       (simp add: read_pos_def try_read_pos_def path_exists_def read_json_def)
  have only: "fst (load_pos f st) \<noteq> None \<longrightarrow>
        (\<exists>v. content f = Json v \<and> (\<forall>pos. v \<noteq> JArr (map JObj pos)))"
  proof (cases "content f")
    case (Json v)
    then show ?thesis using load_pos_objects [of f _ st] by auto
  qed (simp_all add: load_pos_default read_pos_not_json)
  show ?thesis using err mal unr mis obj only by blast
qed

theorem load_pos_outcomes_witness:
  "try_read_pos malformed_file = Inl JSONDecodeError
   \<and> read_pos malformed_file = JArr []
   \<and> load_pos malformed_file new_app = (None, new_app)
   \<and> load_pos \<lparr>content = Json (JArr (map JObj [[(''uploaded'', JStr ''no'')], []])),
               writable = True\<rparr> new_app
       = (None, new_app\<lparr>checkboxes := [False, False]\<rparr>)"
proof -
  have m: "content malformed_file = Malformed" by (simp add: malformed_file_def)
  have c: "content \<lparr>content = Json (JArr (map JObj [[(''uploaded'', JStr ''no'')], []])),
               writable = True\<rparr> = Json (JArr (map JObj [[(''uploaded'', JStr ''no'')], []]))"
    by simp
  have n: "new_app\<lparr>checkboxes := []\<rparr> = new_app" by (simp add: new_app_def)
  note t1 = load_pos_outcomes [of malformed_file new_app]
  note t2 = load_pos_outcomes [of "\<lparr>content = Json (JArr (map JObj [[(''uploaded'', JStr ''no'')], []])),
               writable = True\<rparr>" new_app]
  have a: "try_read_pos malformed_file = Inl JSONDecodeError
        \<and> load_pos malformed_file new_app = (None, new_app\<lparr>checkboxes := []\<rparr>)"
    using t1 m by blast
  have b: "read_pos malformed_file = JArr []" using t1 a by blast
  have d: "load_pos \<lparr>content = Json (JArr (map JObj [[(''uploaded'', JStr ''no'')], []])),
               writable = True\<rparr> new_app
       = (None, new_app\<lparr>checkboxes := replicate (length [[(''uploaded'', JStr ''no'')], []::po]) False\<rparr>)"
    using t2 c by blast
  show ?thesis using a b d n by (simp add: numeral_2_eq_2)
qed

subsection \<open>The selection after a refresh of the lists\<close>

lemma has_key_keys: "has_key d k \<longleftrightarrow> k \<in> set (keys d)"
  by (simp add: has_key_def keys_def map_of_eq_None_iff)

lemma save_settings_fields [simp]:
  "selected_company (save_settings st) = selected_company st"
  "selected_route (save_settings st) = selected_route st"
  "company_database (save_settings st) = company_database st"
  "settings_of (save_settings st) = settings_of st"
  "company_db_file (save_settings st) = company_db_file st"
  "available_routes (save_settings st) = available_routes st"
  "company_names (save_settings st) = company_names st"
  "writable (settings_file (save_settings st)) = writable (settings_file st)"
  by (simp_all add: save_settings_def write_json_def settings_of_def)

lemma save_settings_content:
  "writable (settings_file st) \<Longrightarrow>
   content (settings_file (save_settings st)) = Json (settings_of st)"
  by (simp add: save_settings_def write_json_def)

lemma update_lists_fields [simp]:
  "selected_route (update_route_company_lists st) = selected_route st"
  "company_database (update_route_company_lists st) = company_database st"
  "company_db_file (update_route_company_lists st) = company_db_file st"
  "writable (settings_file (update_route_company_lists st)) = writable (settings_file st)"
  by (simp_all add: update_route_company_lists_def Let_def split: option.splits)

lemma update_lists_refreshed: "selection_refreshed st (update_route_company_lists st)"
  by (auto simp: selection_refreshed_def selection_valid_def update_route_company_lists_def
      Let_def has_key_keys save_settings_content split: option.splits)

lemma update_lists_names:
  "company_names (update_route_company_lists st) =
     (if selected_route st \<noteq> [] then
        (case map_of (company_database st) (selected_route st) of
           Some cs \<Rightarrow> keys cs
         | None \<Rightarrow> [])
      else [])"
  "available_routes (update_route_company_lists st) = keys (company_database st)"
  by (simp_all add: update_route_company_lists_def Let_def split: option.splits)

lemma update_lists_selected:
  "selected_company (update_route_company_lists st) = []
   \<or> selected_company (update_route_company_lists st)
       \<in> set (company_names (update_route_company_lists st))"
  by (simp add: update_route_company_lists_def Let_def split: option.splits)

lemma update_lists_fixpoint:
  assumes "available_routes s = keys (company_database s)"
    and "company_names s =
     (if selected_route s \<noteq> [] then
        (case map_of (company_database s) (selected_route s) of
           Some cs \<Rightarrow> keys cs
         | None \<Rightarrow> [])
      else [])"
    and "selected_company s = [] \<or> selected_company s \<in> set (company_names s)"
  shows "update_route_company_lists s = s"
proof -
  have a: "s\<lparr>available_routes := keys (company_database s)\<rparr> = s"
    by (simp add: assms(1) [symmetric])
  have upd: "\<And>v. company_names s = v \<Longrightarrow> s\<lparr>company_names := v\<rparr> = s"
    by auto
  have b: "(if selected_route s \<noteq> [] then
              (case map_of (company_database s) (selected_route s) of
                 Some cs \<Rightarrow> s\<lparr>company_names := keys cs\<rparr>
               | None \<Rightarrow> s\<lparr>company_names := []\<rparr>)
            else s\<lparr>company_names := []\<rparr>) = s"
    using assms(2) by (simp add: upd split: option.splits if_splits)
  show ?thesis
    unfolding update_route_company_lists_def Let_def a b
    using assms(3) by auto
qed

lemma update_lists_idem:
  "update_route_company_lists (update_route_company_lists st) = update_route_company_lists st"
proof (rule update_lists_fixpoint)
  show "available_routes (update_route_company_lists st)
          = keys (company_database (update_route_company_lists st))"
    by (simp add: update_lists_names(2))
  show "company_names (update_route_company_lists st) =
     (if selected_route (update_route_company_lists st) \<noteq> [] then
        (case map_of (company_database (update_route_company_lists st))
                (selected_route (update_route_company_lists st)) of
           Some cs \<Rightarrow> keys cs
         | None \<Rightarrow> [])
      else [])"
    unfolding update_lists_fields by (rule update_lists_names(1))
  show "selected_company (update_route_company_lists st) = []
   \<or> selected_company (update_route_company_lists st)
       \<in> set (company_names (update_route_company_lists st))"
    by (rule update_lists_selected)
qed

lemma refreshed_after_change:
  assumes "selected_route s = selected_route st" "selected_company s = selected_company st"
    "settings_file s = settings_file st"
  shows "selection_refreshed st (update_route_company_lists s)"
  using update_lists_refreshed [of s] assms by (simp add: selection_refreshed_def)

lemma load_refreshed: "selection_refreshed st (load_company_database st)"
  by (simp add: load_company_database_def refreshed_after_change split: sum.splits)

lemma save_refreshed:
  "fst (save_company_database st) \<Longrightarrow>
   selection_refreshed st (snd (save_company_database st))"
  by (simp add: save_company_database_def refreshed_after_change split: sum.splits)

lemma sync_refreshed:
  "fst (sync_company_database list_of_set response replace st) \<Longrightarrow>
   selection_refreshed st (snd (sync_company_database list_of_set response replace st))"
  by (simp add: sync_company_database_def save_company_database_def write_json_def Let_def
      update_lists_idem refreshed_after_change
      split: http_response.splits option.splits if_splits)

text \<open>
  Claim C10. After each operation that refreshes the route and company lists
  (\<open>update_route_company_lists\<close> itself, loading the company database, a save that
  succeeded, a sync that succeeded) the selected company is empty or a key under the
  selected route of the company database; it is the company selected before or it was
  cleared, and a cleared selection is what the settings file then holds (if the file
  can be written). A selection that is not valid is cleared by the refresh.
\<close>

theorem selection_valid_after_refresh:
  "selection_refreshed st (update_route_company_lists st)
   \<and> selection_refreshed st (load_company_database st)
   \<and> (fst (save_company_database st) \<longrightarrow>
        selection_refreshed st (snd (save_company_database st)))
   \<and> (fst (sync_company_database list_of_set response replace st) \<longrightarrow>
        selection_refreshed st
          (snd (sync_company_database list_of_set response replace st)))
   \<and> (\<not> selection_valid st \<longrightarrow>
        selected_company (update_route_company_lists st) = []
        \<and> (writable (settings_file st) \<longrightarrow>
             content (settings_file (update_route_company_lists st))
               = Json (settings_of (st\<lparr>selected_company := []\<rparr>))))"
proof -
  have cleared: "\<not> selection_valid st \<longrightarrow>
        selected_company (update_route_company_lists st) = []
        \<and> (writable (settings_file st) \<longrightarrow>
             content (settings_file (update_route_company_lists st))
               = Json (settings_of (st\<lparr>selected_company := []\<rparr>)))"
    by (auto simp: selection_valid_def update_route_company_lists_def Let_def has_key_keys
        save_settings_def write_json_def settings_of_def split: option.splits)
  show ?thesis
    using update_lists_refreshed load_refreshed save_refreshed sync_refreshed cleared
    by blast
qed

theorem selection_valid_after_refresh_witness:
  "\<not> selection_valid stale_app
   \<and> selection_valid (update_route_company_lists stale_app)
   \<and> selected_company (update_route_company_lists stale_app) = []
   \<and> content (settings_file (update_route_company_lists stale_app))
       = Json (settings_of (stale_app\<lparr>selected_company := []\<rparr>))
   \<and> map_of (settings_of (stale_app\<lparr>selected_company := []\<rparr>)) ''selected_company'' = Some []"
proof -
  have inv: "\<not> selection_valid stale_app"
    by (simp add: selection_valid_def stale_app_def new_app_def has_key_def)
  have w: "writable (settings_file stale_app)"
    by (simp add: stale_app_def new_app_def absent_file_def)
  show ?thesis
    using selection_valid_after_refresh [of stale_app id NoResponse False] inv w
    by (simp add: selection_refreshed_def settings_of_def)
qed

subsection \<open>Synchronising the company database\<close>

lemma update_fresh: "k \<notin> fst ` set al \<Longrightarrow> AList.update k v al = al @ [(k, v)]"
  by (induction al) auto

lemma fold_set_fresh:
  "distinct (map fst acc @ map fst xs) \<Longrightarrow>
   fold (\<lambda>(k, v) a. dict_set k (f v) a) xs acc = acc @ map (\<lambda>(k, v). (k, f v)) xs"
proof (induction xs arbitrary: acc)
  case Nil
  then show ?case by simp
next
  case (Cons p xs)
  obtain k v where p: "p = (k, v)" by (cases p)
  have fresh: "k \<notin> fst ` set acc" using Cons.prems p by auto
  have d: "distinct (map fst (acc @ [(k, f v)]) @ map fst xs)"
    using Cons.prems p by auto
  show ?case
    using Cons.IH [OF d] by (simp add: p dict_set_def update_fresh [OF fresh])
qed

lemma fold_set_keys:
  "fst ` set (fold (\<lambda>(k, v) a. dict_set k (f v) a) xs acc) = fst ` set acc \<union> fst ` set xs"
proof (induction xs arbitrary: acc)
  case Nil
  then show ?case by simp
next
  case (Cons p xs)
  obtain k v where p: "p = (k, v)" by (cases p)
  have "fst ` set (fold (\<lambda>(k, v) a. dict_set k (f v) a) (p # xs) acc)
          = fst ` set (dict_set k (f v) acc) \<union> fst ` set xs"
    using Cons.IH [of "dict_set k (f v) acc"] by (simp add: p)
  also have "\<dots> = fst ` set acc \<union> fst ` set (p # xs)"
    by (simp add: dict_set_def dom_update p insert_commute Un_commute)
  finally show ?case .
qed

lemma convert_companies_map:
  "wf_dict cs \<Longrightarrow>
   convert_companies cs
     = map (\<lambda>(company, data). (company, [(''frequent_blades'', dict_get data ''descriptions'' [])])) cs"
  unfolding convert_companies_def
  using fold_set_fresh [of "[]" cs "\<lambda>data. [(''frequent_blades'', dict_get data ''descriptions'' [])]"]
  by (simp add: wf_dict_def)

lemma convert_db_map:
  "wf_dict server_db \<Longrightarrow>
   convert_db server_db = map (\<lambda>(route, cs). (route, convert_companies cs)) server_db"
  unfolding convert_db_def
  using fold_set_fresh [of "[]" server_db convert_companies]
  by (simp add: wf_dict_def)

lemma convert_db_has_key: "has_key (convert_db server_db) route \<longleftrightarrow> has_key server_db route"
  unfolding convert_db_def has_key_def map_of_eq_None_iff
  using fold_set_keys [of convert_companies server_db "[]"] by simp

lemma sync_db:
  "company_database (snd (sync_company_database list_of_set (Response 200 (Some server_db)) replace st))
     = (if replace then convert_db server_db
        else merge_db list_of_set (convert_db server_db) (company_database st))"
  "fst (sync_company_database list_of_set (Response 200 (Some server_db)) replace st)"
  by (simp_all add: sync_company_database_def Let_def save_company_database_def write_json_def)

lemma sync_file:
  "writable (company_db_file st) \<Longrightarrow>
   content (company_db_file (snd (sync_company_database list_of_set (Response 200 (Some server_db)) replace st)))
     = Json (if replace then convert_db server_db
        else merge_db list_of_set (convert_db server_db) (company_database st))"
  by (simp add: sync_company_database_def Let_def save_company_database_def write_json_def)

lemma sync_failure:
  "response = NoResponse \<or> (\<exists>status body. response = Response status body \<and> (status \<noteq> 200 \<or> body = None)) \<Longrightarrow>
   sync_company_database list_of_set response replace st = (False, st)"
  by (auto simp: sync_company_database_def)

lemma map_of_dict_set: "map_of (dict_set k v d) = (map_of d)(k \<mapsto> v)"
  by (simp add: dict_set_def update_conv')

lemma merge_company_lookup:
  "map_of (merge_company list_of_set company data local_cs) c =
     (if c = company then
        (case map_of local_cs company of
           None \<Rightarrow> Some data
         | Some existing_data \<Rightarrow> Some (merged_data list_of_set existing_data data))
      else map_of local_cs c)"
  by (simp add: merge_company_def map_of_dict_set merged_data_def blades_def Let_def
      split: option.splits)

lemma merge_companies_lookup:
  "distinct (map fst cs) \<Longrightarrow>
   map_of (merge_companies list_of_set cs local_cs) c =
     (case map_of cs c of
        None \<Rightarrow> map_of local_cs c
      | Some data \<Rightarrow>
          (case map_of local_cs c of
             None \<Rightarrow> Some data
           | Some existing_data \<Rightarrow> Some (merged_data list_of_set existing_data data)))"
proof (induction cs arbitrary: local_cs)
  case Nil
  then show ?case by (simp add: merge_companies_def)
next
  case (Cons p cs)
  obtain company data where p: "p = (company, data)" by (cases p)
  have d: "distinct (map fst cs)" and fresh: "company \<notin> fst ` set cs"
    using Cons.prems p by auto
  have step: "merge_companies list_of_set (p # cs) local_cs
      = merge_companies list_of_set cs (merge_company list_of_set company data local_cs)"
    by (simp add: merge_companies_def p)
  show ?case
  proof (cases "c = company")
    case True
    then have "map_of cs c = None" using fresh by (simp add: map_of_eq_None_iff)
    then show ?thesis
      unfolding step using Cons.IH [OF d] True
      by (simp add: p merge_company_lookup)
  next
    case False
    then show ?thesis
      unfolding step using Cons.IH [OF d]
      by (simp add: p merge_company_lookup split: option.splits)
  qed
qed

lemma merge_route_lookup:
  "map_of (merge_route list_of_set route cs db) r =
     (if r = route then Some (merge_companies list_of_set cs (dict_get db route []))
      else map_of db r)"
  by (simp add: merge_route_def Let_def map_of_dict_set has_key_def dict_get_def
      split: option.splits)

lemma merge_db_lookup:
  "distinct (map fst conv) \<Longrightarrow>
   map_of (merge_db list_of_set conv db) r =
     (case map_of conv r of
        None \<Rightarrow> map_of db r
      | Some cs \<Rightarrow> Some (merge_companies list_of_set cs (dict_get db r [])))"
proof (induction conv arbitrary: db)
  case Nil
  then show ?case by (simp add: merge_db_def)
next
  case (Cons p conv)
  obtain route cs where p: "p = (route, cs)" by (cases p)
  have d: "distinct (map fst conv)" and fresh: "route \<notin> fst ` set conv"
    using Cons.prems p by auto
  have step: "merge_db list_of_set (p # conv) db
      = merge_db list_of_set conv (merge_route list_of_set route cs db)"
    by (simp add: merge_db_def p)
  show ?case
  proof (cases "r = route")
    case True
    then have "map_of conv r = None" using fresh by (simp add: map_of_eq_None_iff)
    then show ?thesis
      unfolding step using Cons.IH [OF d] True
      by (simp add: p merge_route_lookup)
  next
    case False
    then show ?thesis
      unfolding step using Cons.IH [OF d]
      by (simp add: p merge_route_lookup dict_get_def split: option.splits)
  qed
qed

lemma wf_db_route: "wf_db db \<Longrightarrow> map_of db r = Some cs \<Longrightarrow> distinct (map fst cs)"
  by (auto simp: wf_db_def wf_dict_def list_all_iff dest: map_of_SomeD)

lemma lookup_dict_get: "lookup_company db r c = map_of (dict_get db r []) c"
  by (simp add: lookup_company_def dict_get_def split: option.splits)

lemma merge_db_company:
  assumes "wf_db conv"
  shows "lookup_company (merge_db list_of_set conv db) r c =
     (case lookup_company conv r c of
        None \<Rightarrow> lookup_company db r c
      | Some data \<Rightarrow>
          (case lookup_company db r c of
             None \<Rightarrow> Some data
           | Some existing_data \<Rightarrow> Some (merged_data list_of_set existing_data data)))"
proof (cases "map_of conv r")
  case None
  then show ?thesis
    using assms by (simp add: lookup_company_def merge_db_lookup wf_db_def wf_dict_def)
next
  case (Some cs)
  have d: "distinct (map fst cs)" using wf_db_route [OF assms Some] .
  have "lookup_company (merge_db list_of_set conv db) r c
          = map_of (merge_companies list_of_set cs (dict_get db r [])) c"
    using assms Some by (simp add: lookup_company_def merge_db_lookup wf_db_def wf_dict_def)
  then show ?thesis
    using Some by (simp add: merge_companies_lookup [OF d] lookup_dict_get [of db]
        lookup_company_def [of conv] cong: option.case_cong)
qed

lemma merge_db_route_present:
  "wf_db conv \<Longrightarrow>
   map_of (merge_db list_of_set conv db) r = None \<longleftrightarrow> map_of conv r = None \<and> map_of db r = None"
  by (simp add: merge_db_lookup wf_db_def wf_dict_def split: option.splits)

lemma blades_merged:
  "blades (merged_data list_of_set existing_data data)
     = list_of_set (blades existing_data @ blades data)"
  by (simp add: merged_data_def blades_def dict_get_def map_of_dict_set)

lemma fst_comp_convert: "fst \<circ> (\<lambda>(k, v). (k, f v)) = fst"
  by (simp add: fun_eq_iff)

lemma wf_convert_companies: "wf_dict cs \<Longrightarrow> wf_dict (convert_companies cs)"
  by (simp add: convert_companies_map) (simp add: wf_dict_def fst_comp_convert)

lemma wf_convert_db:
  assumes "wf_db server_db"
  shows "wf_db (convert_db server_db)"
proof -
  have d: "wf_dict server_db"
    and each: "\<forall>(route, cs) \<in> set server_db. wf_dict cs"
    using assms by (auto simp: wf_db_def list_all_iff)
  have 1: "wf_dict (convert_db server_db)"
    using d by (simp add: convert_db_map wf_dict_def fst_comp_convert)
  have 2: "list_all (\<lambda>(route, cs). wf_dict cs) (convert_db server_db)"
    using each by (auto simp: convert_db_map [OF d] list_all_iff wf_convert_companies)
  show ?thesis by (simp add: wf_db_def 1 2)
qed

lemma map_of_convert: "map_of (map (\<lambda>(k, v). (k, f v)) xs) k = map_option f (map_of xs k)"
  by (induction xs) auto

lemma convert_db_company:
  assumes wf: "wf_db server_db"
  shows "lookup_company (convert_db server_db) r c
     = map_option (\<lambda>data. [(''frequent_blades'', dict_get data ''descriptions'' [])])
         (lookup_company server_db r c)"
proof (cases "map_of server_db r")
  case None
  then show ?thesis
    using wf by (simp add: lookup_company_def convert_db_map wf_db_def map_of_convert)
next
  case (Some cs)
  have "wf_dict cs" using wf_db_route [OF wf Some] by (simp add: wf_dict_def)
  then show ?thesis
    using wf Some
    by (simp add: lookup_company_def convert_db_map wf_db_def map_of_convert
        convert_companies_map)
qed

lemma abs_db_eqI:
  assumes "\<And>r. map_of db2 r = None \<longleftrightarrow> map_of db1 r = None"
    and "\<And>r c. map_option (\<lambda>data. set (blades data)) (lookup_company db2 r c)
               = map_option (\<lambda>data. set (blades data)) (lookup_company db1 r c)"
  shows "abs_db db2 = abs_db db1"
proof (rule ext)
  fix r
  show "abs_db db2 r = abs_db db1 r"
  proof (cases "map_of db1 r")
    case None
    then show ?thesis using assms(1) [of r] by (simp add: abs_db_def)
  next
    case (Some cs1)
    then obtain cs2 where cs2: "map_of db2 r = Some cs2"
      using assms(1) [of r] by (cases "map_of db2 r") auto
    have "\<And>c. map_option (\<lambda>data. set (blades data)) (map_of cs2 c)
               = map_option (\<lambda>data. set (blades data)) (map_of cs1 c)"
      using assms(2) [of r] Some cs2 by (simp add: lookup_company_def)
    then show ?thesis using Some cs2 by (simp add: abs_db_def)
  qed
qed

lemma merge_twice_blades:
  assumes ok1: "set_order_ok ord1" and ok2: "set_order_ok ord2" and wf: "wf_db conv"
  shows "map_option (\<lambda>data. set (blades data))
           (lookup_company (merge_db ord2 conv (merge_db ord1 conv db)) r c)
       = map_option (\<lambda>data. set (blades data))
           (lookup_company (merge_db ord1 conv db) r c)"
proof (cases "lookup_company conv r c")
  case None
  then show ?thesis by (simp add: merge_db_company [OF wf])
next
  case (Some data)
  show ?thesis
  proof (cases "lookup_company db r c")
    case None
    then show ?thesis
      using Some ok2 by (simp add: merge_db_company [OF wf] blades_merged set_order_ok_def)
  next
    case (Some existing_data)
    then show ?thesis
      using \<open>lookup_company conv r c = Some data\<close> ok1 ok2
      by (auto simp: merge_db_company [OF wf] blades_merged set_order_ok_def)
  qed
qed

lemma merge_twice_abs:
  assumes ok1: "set_order_ok ord1" and ok2: "set_order_ok ord2" and wf: "wf_db conv"
  shows "abs_db (merge_db ord2 conv (merge_db ord1 conv db)) = abs_db (merge_db ord1 conv db)"
proof (rule abs_db_eqI)
  fix r
  show "map_of (merge_db ord2 conv (merge_db ord1 conv db)) r = None
          \<longleftrightarrow> map_of (merge_db ord1 conv db) r = None"
    by (simp add: merge_db_route_present [OF wf])
next
  fix r c
  show "map_option (\<lambda>data. set (blades data))
           (lookup_company (merge_db ord2 conv (merge_db ord1 conv db)) r c)
       = map_option (\<lambda>data. set (blades data))
           (lookup_company (merge_db ord1 conv db) r c)"
    by (rule merge_twice_blades [OF ok1 ok2 wf])
qed

lemma merge_twice_distinct:
  assumes ok2: "set_order_ok ord2" and wf: "wf_db conv"
    and "lookup_company conv r c = Some data"
  shows "\<exists>d. lookup_company (merge_db ord2 conv (merge_db ord1 conv db)) r c = Some d
            \<and> distinct (blades d)"
  using assms(3) ok2
  by (auto simp: merge_db_company [OF wf] blades_merged set_order_ok_def split: option.splits)

lemma wf_example_remote: "wf_db example_remote"
  by (simp add: wf_db_def wf_dict_def example_remote_def)

text \<open>
  Claim C2. A sync with \<open>replace = True\<close> that gets the snapshot (status 200) succeeds
  and leaves the converted snapshot as the whole company database, in memory and (if
  the file can be written) on disk: its routes are exactly the remote routes, so a
  route that only the local database had is gone. For a well-formed snapshot the
  converted entry of a company holds the remote \<open>descriptions\<close> as \<open>frequent_blades\<close>.
\<close>

theorem sync_replace_discards_local:
  "fst (sync_company_database list_of_set (Response 200 (Some remote)) True st)
   \<and> company_database (snd (sync_company_database list_of_set (Response 200 (Some remote)) True st))
       = convert_db remote
   \<and> (has_key (company_database
                 (snd (sync_company_database list_of_set (Response 200 (Some remote)) True st)))
         route \<longleftrightarrow> has_key remote route)
   \<and> (has_key (company_database st) route \<and> \<not> has_key remote route \<longrightarrow>
        \<not> has_key (company_database
                 (snd (sync_company_database list_of_set (Response 200 (Some remote)) True st)))
           route)
   \<and> (writable (company_db_file st) \<longrightarrow>
        content (company_db_file
                  (snd (sync_company_database list_of_set (Response 200 (Some remote)) True st)))
          = Json (convert_db remote))
   \<and> (wf_db remote \<longrightarrow>
        lookup_company (convert_db remote) route company
          = map_option (\<lambda>data. [(''frequent_blades'', dict_get data ''descriptions'' [])])
              (lookup_company remote route company))"
  using sync_file [of st list_of_set remote True] convert_db_company [of remote route company]
  by (simp add: sync_db convert_db_has_key)

theorem sync_replace_discards_local_witness:
  "has_key (company_database local_r2_app) ''R2''
   \<and> \<not> has_key (company_database
                 (snd (sync_company_database remdups (Response 200 (Some example_remote)) True
                         local_r2_app))) ''R2''
   \<and> content (company_db_file
                  (snd (sync_company_database remdups (Response 200 (Some example_remote)) True
                         local_r2_app)))
          = Json [(''R1'', [(''A'', [(''frequent_blades'', [''x'', ''y''])])])]"
proof -
  have w: "writable (company_db_file local_r2_app)"
    by (simp add: local_r2_app_def new_app_def absent_file_def)
  have c: "convert_db example_remote = [(''R1'', [(''A'', [(''frequent_blades'', [''x'', ''y''])])])]"
    by (simp add: convert_db_def convert_companies_def example_remote_def dict_set_def dict_get_def)
  show ?thesis
    using sync_replace_discards_local [of remdups example_remote local_r2_app "''R2''" "''A''"] w c
    by (simp add: local_r2_app_def new_app_def has_key_def example_remote_def)
qed

lemma merge_sync_company:
  assumes "wf_db remote"
    and "lookup_company (company_database st) route company = Some existing_data"
    and "lookup_company remote route company = Some remote_data"
  shows "map_option blades
          (lookup_company
             (company_database
                (snd (sync_company_database list_of_set (Response 200 (Some remote)) False st)))
             route company)
          = Some (list_of_set (blades existing_data @ dict_get remote_data ''descriptions'' []))"
  using assms
  by (simp add: sync_db merge_db_company [OF wf_convert_db] convert_db_company
        blades_merged) (simp add: blades_def dict_get_def)

text \<open>
  Claim C1. After a merge sync (\<open>replace = False\<close>, status 200) a company that both
  the local database and a well-formed remote snapshot have under a route holds, as
  its \<open>frequent_blades\<close>, \<open>list(set(local + remote))\<close>: the union of the local blades
  and the remote descriptions, each once. Local \<open>{"R1": {"A": {"frequent_blades":
  ["x"]}}}\<close> merged with remote \<open>{"R1": {"A": {"descriptions": ["x", "y"]}}}\<close> gives
  company A the blade set \<open>{x, y}\<close>.
\<close>

theorem merge_sync_unions_blades:
  assumes "set_order_ok list_of_set"
  shows
    "(wf_db remote
      \<and> lookup_company (company_database st) route company = Some existing_data
      \<and> lookup_company remote route company = Some remote_data \<longrightarrow>
        map_option blades
          (lookup_company
             (company_database
                (snd (sync_company_database list_of_set (Response 200 (Some remote)) False st)))
             route company)
          = Some (list_of_set (blades existing_data @ dict_get remote_data ''descriptions'' []))
        \<and> set (list_of_set (blades existing_data @ dict_get remote_data ''descriptions'' []))
            = set (blades existing_data) \<union> set (dict_get remote_data ''descriptions'' [])
        \<and> distinct (list_of_set (blades existing_data @ dict_get remote_data ''descriptions'' [])))
     \<and> (company_database st = example_local \<longrightarrow>
        map_option (\<lambda>data. set (blades data))
          (lookup_company
             (company_database
                (snd (sync_company_database list_of_set (Response 200 (Some example_remote))
                        False st)))
             ''R1'' ''A'')
          = Some {''x'', ''y''})"
proof -
  have ok: "\<And>xs. set (list_of_set xs) = set xs" "\<And>xs. distinct (list_of_set xs)"
    using assms by (simp_all add: set_order_ok_def)
  have example: "map_option (\<lambda>data. set (blades data))
          (lookup_company
             (company_database
                (snd (sync_company_database list_of_set (Response 200 (Some example_remote))
                        False st)))
             ''R1'' ''A'')
          = Some {''x'', ''y''}"
    if loc: "company_database st = example_local"
  proof -
    have l: "lookup_company (company_database st) ''R1'' ''A'' = Some [(''frequent_blades'', [''x''])]"
      by (simp add: loc example_local_def lookup_company_def)
    have r: "lookup_company example_remote ''R1'' ''A'' = Some [(''descriptions'', [''x'', ''y''])]"
      by (simp add: example_remote_def lookup_company_def)
    have e: "map_option blades
          (lookup_company
             (company_database
                (snd (sync_company_database list_of_set (Response 200 (Some example_remote))
                        False st)))
             ''R1'' ''A'')
          = Some (list_of_set ([''x''] @ [''x'', ''y'']))"
      using merge_sync_company [OF wf_example_remote l r, of list_of_set]
      by (simp add: blades_def dict_get_def)
    have "map_option set (map_option blades
          (lookup_company
             (company_database
                (snd (sync_company_database list_of_set (Response 200 (Some example_remote))
                        False st)))
             ''R1'' ''A''))
          = map_option set (Some (list_of_set ([''x''] @ [''x'', ''y''])))"
      by (simp only: e)
    also have "\<dots> = Some {''x'', ''y''}"
      by (simp add: ok)
    finally have "map_option set (map_option blades
          (lookup_company
             (company_database
                (snd (sync_company_database list_of_set (Response 200 (Some example_remote))
                        False st)))
             ''R1'' ''A''))
          = Some {''x'', ''y''}" .
    then show ?thesis by (simp add: option.map_comp o_def)
  qed
  have general: "wf_db remote
      \<and> lookup_company (company_database st) route company = Some existing_data
      \<and> lookup_company remote route company = Some remote_data \<longrightarrow>
        map_option blades
          (lookup_company
             (company_database
                (snd (sync_company_database list_of_set (Response 200 (Some remote)) False st)))
             route company)
          = Some (list_of_set (blades existing_data @ dict_get remote_data ''descriptions'' []))
        \<and> set (list_of_set (blades existing_data @ dict_get remote_data ''descriptions'' []))
            = set (blades existing_data) \<union> set (dict_get remote_data ''descriptions'' [])
        \<and> distinct (list_of_set (blades existing_data @ dict_get remote_data ''descriptions'' []))"
  proof (intro impI conjI)
    assume h: "wf_db remote
      \<and> lookup_company (company_database st) route company = Some existing_data
      \<and> lookup_company remote route company = Some remote_data"
    show "map_option blades
          (lookup_company
             (company_database
                (snd (sync_company_database list_of_set (Response 200 (Some remote)) False st)))
             route company)
          = Some (list_of_set (blades existing_data @ dict_get remote_data ''descriptions'' []))"
      using h by (intro merge_sync_company) simp_all
  next
    show "set (list_of_set (blades existing_data @ dict_get remote_data ''descriptions'' []))
            = set (blades existing_data) \<union> set (dict_get remote_data ''descriptions'' [])"
      by (simp add: ok)
  next
    show "distinct (list_of_set (blades existing_data @ dict_get remote_data ''descriptions'' []))"
      by (rule ok)
  qed
  show ?thesis
  proof (rule conjI)
    show "wf_db remote
      \<and> lookup_company (company_database st) route company = Some existing_data
      \<and> lookup_company remote route company = Some remote_data \<longrightarrow>
        map_option blades
          (lookup_company
             (company_database
                (snd (sync_company_database list_of_set (Response 200 (Some remote)) False st)))
             route company)
          = Some (list_of_set (blades existing_data @ dict_get remote_data ''descriptions'' []))
        \<and> set (list_of_set (blades existing_data @ dict_get remote_data ''descriptions'' []))
            = set (blades existing_data) \<union> set (dict_get remote_data ''descriptions'' [])
        \<and> distinct (list_of_set (blades existing_data @ dict_get remote_data ''descriptions'' []))"
      by (rule general)
  next
    show "company_database st = example_local \<longrightarrow>
        map_option (\<lambda>data. set (blades data))
          (lookup_company
             (company_database
                (snd (sync_company_database list_of_set (Response 200 (Some example_remote))
                        False st)))
             ''R1'' ''A'')
          = Some {''x'', ''y''}"
      using example by (rule impI)
  qed
qed

theorem merge_sync_unions_blades_witness:
  "map_option blades
     (lookup_company
        (company_database
           (snd (sync_company_database remdups (Response 200 (Some example_remote)) False
                   (new_app\<lparr>company_database := example_local\<rparr>))))
        ''R1'' ''A'')
     = Some [''x'', ''y'']"
proof -
  have ok: "set_order_ok remdups" by (simp add: set_order_ok_def)
  have l: "lookup_company (company_database (new_app\<lparr>company_database := example_local\<rparr>))
             ''R1'' ''A'' = Some [(''frequent_blades'', [''x''])]"
    by (simp add: example_local_def lookup_company_def)
  have r: "lookup_company example_remote ''R1'' ''A'' = Some [(''descriptions'', [''x'', ''y''])]"
    by (simp add: example_remote_def lookup_company_def)
  show ?thesis
    using merge_sync_unions_blades [OF ok, of example_remote
        "new_app\<lparr>company_database := example_local\<rparr>" "''R1''" "''A''"
        "[(''frequent_blades'', [''x''])]" "[(''descriptions'', [''x'', ''y''])]"]
      wf_example_remote l r
    by (simp add: blades_def dict_get_def)
qed

text \<open>
  Claim C3. Merging the same well-formed snapshot a second time (whatever order the
  two \<open>list(set(...))\<close> calls produce) leaves the company database of the data model
  as the first merge left it: the same routes, the same companies under each, the
  same set of blades for each company. After the second merge the blade list of every
  company of the snapshot has no duplicates. The stored lists themselves may differ
  in order, and a duplicate that the snapshot itself carries for a company new to the
  local database is stored by the first merge and removed by the second.
\<close>

theorem merge_sync_idempotent:
  assumes "set_order_ok ord1" and "set_order_ok ord2" and "wf_db remote"
  shows
    "abs_db (company_database
               (snd (sync_company_database ord2 (Response 200 (Some remote)) False
                       (snd (sync_company_database ord1 (Response 200 (Some remote)) False st)))))
       = abs_db (company_database
               (snd (sync_company_database ord1 (Response 200 (Some remote)) False st)))
     \<and> (lookup_company remote route company \<noteq> None \<longrightarrow>
          (\<exists>data. lookup_company
                    (company_database
                       (snd (sync_company_database ord2 (Response 200 (Some remote)) False
                          (snd (sync_company_database ord1 (Response 200 (Some remote)) False st)))))
                    route company = Some data
                 \<and> distinct (blades data)))"
proof -
  have wf: "wf_db (convert_db remote)" using assms(3) by (rule wf_convert_db)
  have present: "lookup_company (convert_db remote) route company \<noteq> None"
    if "lookup_company remote route company \<noteq> None"
    using that by (simp add: convert_db_company [OF assms(3)])
  show ?thesis
    using merge_twice_abs [OF assms(1) assms(2) wf]
      merge_twice_distinct [OF assms(2) wf, of route company] present
    by (auto simp: sync_db)
qed

theorem merge_sync_idempotent_witness:
  "abs_db (company_database
               (snd (sync_company_database remdups (Response 200 (Some dup_remote)) False
                       (snd (sync_company_database remdups (Response 200 (Some dup_remote)) False new_app)))))
       = abs_db (company_database
               (snd (sync_company_database remdups (Response 200 (Some dup_remote)) False new_app)))
   \<and> lookup_company (company_database
               (snd (sync_company_database remdups (Response 200 (Some dup_remote)) False new_app)))
        ''R1'' ''A'' = Some [(''frequent_blades'', [''x'', ''x''])]
   \<and> lookup_company (company_database
               (snd (sync_company_database remdups (Response 200 (Some dup_remote)) False
                       (snd (sync_company_database remdups (Response 200 (Some dup_remote)) False new_app)))))
        ''R1'' ''A'' = Some [(''frequent_blades'', [''x''])]"
proof -
  have ok: "set_order_ok remdups" by (simp add: set_order_ok_def)
  have wf: "wf_db dup_remote" by (simp add: wf_db_def wf_dict_def dup_remote_def)
  have once: "lookup_company (company_database
               (snd (sync_company_database remdups (Response 200 (Some dup_remote)) False new_app)))
        ''R1'' ''A'' = Some [(''frequent_blades'', [''x'', ''x''])]"
    by (simp add: sync_db) (simp add: dup_remote_def convert_db_def convert_companies_def
        merge_db_def merge_route_def merge_companies_def merge_company_def dict_set_def
        dict_get_def has_key_def lookup_company_def new_app_def)
  have twice: "lookup_company (company_database
               (snd (sync_company_database remdups (Response 200 (Some dup_remote)) False
                       (snd (sync_company_database remdups (Response 200 (Some dup_remote)) False new_app)))))
        ''R1'' ''A'' = Some [(''frequent_blades'', [''x''])]"
    by (simp add: sync_db) (simp add: dup_remote_def convert_db_def convert_companies_def
        merge_db_def merge_route_def merge_companies_def merge_company_def dict_set_def
        dict_get_def has_key_def lookup_company_def new_app_def)
  show ?thesis
    using merge_sync_idempotent [OF ok ok wf, of new_app "''R1''" "''A''"] once twice by simp
qed

subsection \<open>Uploading, deleting and editing the selected entries\<close>

lemma selected_indices_sorted: "sorted (selected_indices boxes)"
  unfolding selected_indices_def by (rule sorted_filter) simp

lemma selected_indices_distinct: "distinct (selected_indices boxes)"
  unfolding selected_indices_def by (rule distinct_map_filter) simp

lemma selected_indices_set:
  "set (selected_indices boxes) = {i. i < length boxes \<and> boxes ! i}"
  by (auto simp: selected_indices_def in_set_enumerate_eq image_iff)

lemma collect_uploads_result:
  "collect_uploads today driver all_pos selected
     = Inr (map (\<lambda>i. prepare_po today driver (all_pos ! i))
              (filter (\<lambda>i. i < length all_pos) selected))"
  by (induction selected) (simp_all add: list_get_def)

lemma marked_length [simp]: "length (marked selected all_pos) = length all_pos"
  by (simp add: marked_def)

lemma marked_nth:
  "i < length all_pos \<Longrightarrow>
   marked selected all_pos ! i = (if i \<in> set selected then mark_po (all_pos ! i) else all_pos ! i)"
  by (simp add: marked_def nth_enumerate_eq)

lemma mark_po_idem: "mark_po (mark_po po) = mark_po po"
  by (simp add: mark_po_def dict_set_def)

lemma mark_uploaded_result: "mark_uploaded all_pos selected = Inr (marked selected all_pos)"
proof (induction selected arbitrary: all_pos)
  case Nil
  show ?case by (simp add: marked_def map_idI in_set_enumerate_eq nth_equalityI nth_enumerate_eq)
next
  case (Cons i rest)
  show ?case
  proof (cases "i < length all_pos")
    case True
    have "marked rest (all_pos[i := mark_po (all_pos ! i)]) = marked (i # rest) all_pos"
      using True by (intro nth_equalityI) (auto simp: marked_nth nth_list_update mark_po_idem)
    then show ?thesis
      using True Cons.IH [of "all_pos[i := mark_po (all_pos ! i)]"]
      by (simp add: list_get_def list_set_def mark_po_def)
  next
    case False
    have "marked rest all_pos = marked (i # rest) all_pos"
      using False by (intro nth_equalityI) (auto simp: marked_nth)
    then show ?thesis
      using False Cons.IH [of all_pos] by simp
  qed
qed

lemma nths_agree:
  "(\<And>i. i < length xs \<Longrightarrow> i \<in> A \<longleftrightarrow> i \<in> B) \<Longrightarrow> nths xs A = nths xs B"
  unfolding nths_def
  by (rule arg_cong [where f = "map fst"], rule filter_cong) (auto dest: set_zip_rightD)

lemma delete_indices_result:
  "sorted (rev ds) \<Longrightarrow> distinct ds \<Longrightarrow>
   delete_indices pos ds = Inr (nths pos {i. i \<notin> set ds})"
proof (induction ds arbitrary: pos)
  case Nil
  show ?case by (simp add: nths_all)
next
  case (Cons d rest)
  have below: "\<And>r. r \<in> set rest \<Longrightarrow> r < d"
    using Cons.prems by (auto simp: sorted_append order_less_le)
  have s: "sorted (rev rest)" and di: "distinct rest"
    using Cons.prems by (auto simp: sorted_append)
  show ?case
  proof (cases "d < length pos")
    case True
    let ?pos' = "take d pos @ drop (Suc d) pos"
    have split: "pos = take d pos @ pos ! d # drop (Suc d) pos"
      using True by (rule id_take_nth_drop)
    have l: "length (take d pos) = d" using True by simp
    have 1: "nths ?pos' {i. i \<notin> set rest}
               = nths (take d pos) {i. i \<notin> set rest} @ drop (Suc d) pos"
    proof -
      have "{j. j + d \<notin> set rest} = UNIV" using below by fastforce
      then show ?thesis using True by (simp add: nths_append min_def nths_all)
    qed
    have 2: "nths pos {i. i \<notin> set (d # rest)}
               = nths (take d pos) {i. i \<notin> set rest} @ drop (Suc d) pos"
    proof -
      have a: "nths (take d pos) {i. i \<notin> set (d # rest)} = nths (take d pos) {i. i \<notin> set rest}"
        by (rule nths_agree) auto
      have b: "{j. Suc (j + d) \<notin> set (d # rest)} = UNIV" using below by fastforce
      have "nths (take d pos @ pos ! d # drop (Suc d) pos) {i. i \<notin> set (d # rest)}
              = nths (take d pos) {i. i \<notin> set rest} @ drop (Suc d) pos"
        using a b True by (simp add: nths_append nths_Cons min_def nths_all)
      then show ?thesis using split by simp
    qed
    show ?thesis
      using True Cons.IH [OF s di, of ?pos'] 1 2 by (simp add: list_pop_def)
  next
    case False
    have "nths pos {i. i \<notin> set rest} = nths pos {i. i \<notin> set (d # rest)}"
      using False by (intro nths_agree) auto
    then show ?thesis
      using False Cons.IH [OF s di, of pos] by simp
  qed
qed

lemma delete_selected_indices:
  "delete_indices pos (rev (sort (selected_indices boxes)))
     = Inr (nths pos {i. \<not> (i < length boxes \<and> boxes ! i)})"
proof -
  have "sort (selected_indices boxes) = selected_indices boxes"
    by (simp add: sorted_sort_id selected_indices_sorted)
  then show ?thesis
    using delete_indices_result [of "rev (selected_indices boxes)" pos]
    by (simp add: selected_indices_sorted selected_indices_distinct selected_indices_set)
qed

lemma delete_indices_total: "\<exists>r. delete_indices pos ds = Inr r"
  by (induction ds arbitrary: pos) (simp_all add: list_pop_def)

lemma upload_not_200:
  assumes "selected_indices (checkboxes st) \<noteq> []"
    and "response = NoResponse \<or> (\<exists>status body. response = Response status body \<and> status \<noteq> 200)"
  shows "\<exists>d. upload_selected today response st = Inr (show_dialog d st)"
  using assms
  by (auto simp: upload_selected_def collect_uploads_result Let_def split: sum.splits)

lemma upload_200:
  assumes "selected_indices (checkboxes st) \<noteq> []"
    and "content (data_file st) = Json all_pos" and "writable (data_file st)"
  shows "upload_selected today (Response 200 body) st
     = Inr (show_dialog
              (UploadSuccess (length (filter (\<lambda>i. i < length all_pos)
                                        (selected_indices (checkboxes st)))))
              (st\<lparr>data_file :=
                    (data_file st)\<lparr>content := Json (marked (selected_indices (checkboxes st)) all_pos)\<rparr>,
                  checkboxes := replicate (length all_pos) False\<rparr>))"
  using assms
  by (simp add: upload_selected_def collect_uploads_result mark_uploaded_result Let_def
      read_json_def write_json_def load_pos_on_disk)

lemma upload_total: "\<exists>st'. upload_selected today response st = Inr st'"
  by (simp add: upload_selected_def collect_uploads_result mark_uploaded_result Let_def
      load_pos_on_disk split: sum.splits http_response.splits)

lemma delete_total: "\<exists>st'. delete_selected st = Inr st'"
  by (simp add: delete_selected_def delete_selected_indices Let_def load_pos_on_disk
      split: sum.splits)

lemma update_total: "\<exists>st'. update_selected st = Inr st'"
  by (auto simp: update_selected_def Let_def list_get_def split: sum.splits)

lemma update_out_of_range:
  "selected_indices (checkboxes st) = [i] \<Longrightarrow> content (data_file st) = Json pos \<Longrightarrow>
   length pos \<le> i \<Longrightarrow> update_selected st = Inr (show_dialog InvalidPickUpForm st)"
  by (simp add: update_selected_def Let_def list_get_def read_json_def)

lemma update_in_range:
  "selected_indices (checkboxes st) = [i] \<Longrightarrow> content (data_file st) = Json pos \<Longrightarrow>
   i < length pos \<Longrightarrow>
   update_selected st = Inr (edit_po (pos ! i) (st\<lparr>editing_index := Some i\<rparr>))"
  by (simp add: update_selected_def Let_def list_get_def read_json_def)

lemma delete_result:
  assumes "selected_indices (checkboxes st) \<noteq> []"
    and "content (data_file st) = Json pos" and "writable (data_file st)"
  shows "delete_selected st
     = Inr (show_dialog (DeleteSuccess (length (selected_indices (checkboxes st))))
              (st\<lparr>data_file :=
                    (data_file st)\<lparr>content :=
                       Json (nths pos {i. \<not> (i < length (checkboxes st) \<and> checkboxes st ! i)})\<rparr>,
                  checkboxes :=
                    replicate
                      (length (nths pos {i. \<not> (i < length (checkboxes st) \<and> checkboxes st ! i)}))
                      False\<rparr>))"
  using assms
  by (simp add: delete_selected_def delete_selected_indices Let_def read_json_def write_json_def
      load_pos_on_disk)

lemma upload_no_index_error:
  "upload_selected today response st = Inr st' \<Longrightarrow>
   UploadFailed IndexError \<notin> set (dialogs st) \<Longrightarrow> UploadFailed IndexError \<notin> set (dialogs st')"
  by (auto simp: upload_selected_def collect_uploads_result mark_uploaded_result Let_def
      show_dialog_def load_pos_on_disk write_json_def
      split: sum.splits http_response.splits if_splits)

text \<open>
  Claim C4. With at least one box checked: when the upload request raises or the
  server answers with a status other than 200, \<open>upload_selected\<close> only shows a
  dialog, so the PO data file (and with it every \<open>uploaded\<close> flag) is what it was;
  when the server answers 200 (the stored list having been read, and the file being
  writable) the file holds the list in which exactly the entries at the selected
  positions inside the list have \<open>uploaded\<close> set to \<open>true\<close> and all others are
  unchanged.
\<close>

theorem upload_marks_only_on_200:
  assumes "selected_indices (checkboxes st) \<noteq> []"
  shows
    "(response = NoResponse \<or> (\<exists>status body. response = Response status body \<and> status \<noteq> 200) \<longrightarrow>
        (\<exists>d. upload_selected today response st = Inr (show_dialog d st))
        \<and> (\<forall>st'. upload_selected today response st = Inr st' \<longrightarrow> data_file st' = data_file st))
     \<and> (content (data_file st) = Json all_pos \<and> writable (data_file st) \<longrightarrow>
        (\<exists>st'. upload_selected today (Response 200 body) st = Inr st'
               \<and> content (data_file st')
                   = Json (marked (selected_indices (checkboxes st)) all_pos))
        \<and> length (marked (selected_indices (checkboxes st)) all_pos) = length all_pos
        \<and> (\<forall>i < length all_pos.
              marked (selected_indices (checkboxes st)) all_pos ! i
                = (if i \<in> set (selected_indices (checkboxes st))
                   then dict_set ''uploaded'' (JBool True) (all_pos ! i)
                   else all_pos ! i))
        \<and> (\<forall>i < length all_pos. i \<in> set (selected_indices (checkboxes st)) \<longrightarrow>
              map_of (marked (selected_indices (checkboxes st)) all_pos ! i) ''uploaded''
                = Some (JBool True)))"
proof -
  note sel = assms
  have failure: "(\<exists>d. upload_selected today response st = Inr (show_dialog d st))
        \<and> (\<forall>st'. upload_selected today response st = Inr st' \<longrightarrow> data_file st' = data_file st)"
    if r: "response = NoResponse \<or> (\<exists>status body. response = Response status body \<and> status \<noteq> 200)"
  proof -
    obtain d where d: "upload_selected today response st = Inr (show_dialog d st)"
      using upload_not_200 [OF sel r] by blast
    then show ?thesis by (auto simp: show_dialog_def)
  qed
  have success: "\<exists>st'. upload_selected today (Response 200 body) st = Inr st'
               \<and> content (data_file st')
                   = Json (marked (selected_indices (checkboxes st)) all_pos)"
    if "content (data_file st) = Json all_pos" "writable (data_file st)"
    using upload_200 [OF sel that, of today body] by (simp add: show_dialog_def)
  have nth: "\<forall>i < length all_pos.
              marked (selected_indices (checkboxes st)) all_pos ! i
                = (if i \<in> set (selected_indices (checkboxes st))
                   then dict_set ''uploaded'' (JBool True) (all_pos ! i)
                   else all_pos ! i)"
    by (simp add: marked_nth mark_po_def)
  have flag: "\<forall>i < length all_pos. i \<in> set (selected_indices (checkboxes st)) \<longrightarrow>
              map_of (marked (selected_indices (checkboxes st)) all_pos ! i) ''uploaded''
                = Some (JBool True)"
    by (simp add: marked_nth mark_po_def map_of_dict_set)
  show ?thesis
    using failure success nth flag marked_length by blast
qed

theorem upload_marks_only_on_200_witness:
  "(\<exists>d. upload_selected ''01/02/2026'' (Response 500 None) stale_boxes_app
           = Inr (show_dialog d stale_boxes_app))
   \<and> (\<exists>st'. upload_selected ''01/02/2026'' (Response 200 None) stale_boxes_app = Inr st'
            \<and> content (data_file st')
                = Json [[(''uploaded'', JBool True), (''description'', JStr ''saw'')], po_b])"
proof -
  have sel: "selected_indices (checkboxes stale_boxes_app) = [0, 2]"
    by (simp add: stale_boxes_app_def selected_indices_def enumerate_eq_zip upt_rec)
  have ne: "selected_indices (checkboxes stale_boxes_app) \<noteq> []"
    by (simp add: sel)
  have f: "content (data_file stale_boxes_app) = Json [po_a, po_b]"
    "writable (data_file stale_boxes_app)"
    by (simp_all add: stale_boxes_app_def)
  have m: "marked [0, 2] [po_a, po_b]
             = [[(''uploaded'', JBool True), (''description'', JStr ''saw'')], po_b]"
    by (simp add: marked_def mark_po_def dict_set_def po_a_def enumerate_eq_zip upt_rec)
  show ?thesis
    using upload_marks_only_on_200 [OF ne, of "Response 500 None" "''01/02/2026''"
        "[po_a, po_b]" None] f
    by (simp add: sel m) blast
qed

text \<open>
  Claim C9. The three handlers never let an exception reach their caller and never
  report an \<open>IndexError\<close>: every list access of the model raises \<open>IndexError\<close> out of
  range, and none does. Upload reads and marks only the selected positions below the
  length of the stored list; delete removes exactly the checked positions below it
  (the entries left are those of the unchecked or missing boxes, in order); update
  refuses a selected position at or beyond the length with the error dialog and
  otherwise reads that one entry.
\<close>

theorem selected_indices_in_range_only:
  "(\<exists>st'. upload_selected today response st = Inr st')
   \<and> (\<exists>st'. delete_selected st = Inr st')
   \<and> (\<exists>st'. update_selected st = Inr st')
   \<and> (\<forall>st'. upload_selected today response st = Inr st'
             \<and> UploadFailed IndexError \<notin> set (dialogs st)
           \<longrightarrow> UploadFailed IndexError \<notin> set (dialogs st'))
   \<and> collect_uploads today driver pos selected
       = Inr (map (\<lambda>i. prepare_po today driver (pos ! i))
                (filter (\<lambda>i. i < length pos) selected))
   \<and> mark_uploaded pos selected = Inr (marked selected pos)
   \<and> length (marked selected pos) = length pos
   \<and> (\<forall>i < length pos.
         marked selected pos ! i
           = (if i \<in> set selected then dict_set ''uploaded'' (JBool True) (pos ! i)
              else pos ! i))
   \<and> delete_indices pos (rev (sort (selected_indices boxes)))
       = Inr (nths pos {i. \<not> (i < length boxes \<and> boxes ! i)})
   \<and> (selected_indices (checkboxes st) = [i] \<and> content (data_file st) = Json pos
        \<and> length pos \<le> i \<longrightarrow>
        update_selected st = Inr (show_dialog InvalidPickUpForm st))
   \<and> (selected_indices (checkboxes st) = [i] \<and> content (data_file st) = Json pos
        \<and> i < length pos \<longrightarrow>
        update_selected st = Inr (edit_po (pos ! i) (st\<lparr>editing_index := Some i\<rparr>)))"
proof -
  have nth: "\<forall>i < length pos.
         marked selected pos ! i
           = (if i \<in> set selected then dict_set ''uploaded'' (JBool True) (pos ! i)
              else pos ! i)"
    by (simp add: marked_nth mark_po_def)
  have idx: "\<forall>st'. upload_selected today response st = Inr st'
             \<and> UploadFailed IndexError \<notin> set (dialogs st)
           \<longrightarrow> UploadFailed IndexError \<notin> set (dialogs st')"
    using upload_no_index_error by blast
  have out: "selected_indices (checkboxes st) = [i] \<and> content (data_file st) = Json pos
        \<and> length pos \<le> i \<longrightarrow>
        update_selected st = Inr (show_dialog InvalidPickUpForm st)"
    using update_out_of_range by blast
  have inr: "selected_indices (checkboxes st) = [i] \<and> content (data_file st) = Json pos
        \<and> i < length pos \<longrightarrow>
        update_selected st = Inr (edit_po (pos ! i) (st\<lparr>editing_index := Some i\<rparr>))"
    using update_in_range by blast
  show ?thesis
    by (intro conjI upload_total delete_total update_total idx collect_uploads_result
        mark_uploaded_result marked_length nth delete_selected_indices out inr)
qed

theorem selected_indices_in_range_only_witness:
  "delete_indices [po_a, po_b] (rev (sort (selected_indices [True, False, True]))) = Inr [po_b]
   \<and> mark_uploaded [po_a, po_b] [0, 2]
       = Inr [[(''uploaded'', JBool True), (''description'', JStr ''saw'')], po_b]
   \<and> update_selected (stale_boxes_app\<lparr>checkboxes := [False, False, True]\<rparr>)
       = Inr (show_dialog InvalidPickUpForm (stale_boxes_app\<lparr>checkboxes := [False, False, True]\<rparr>))"
proof -
  have sel: "selected_indices (checkboxes (stale_boxes_app\<lparr>checkboxes := [False, False, True]\<rparr>)) = [2]"
    by (simp add: selected_indices_def enumerate_eq_zip upt_rec)
  have f: "content (data_file (stale_boxes_app\<lparr>checkboxes := [False, False, True]\<rparr>))
             = Json [po_a, po_b]"
    by (simp add: stale_boxes_app_def)
  have m: "marked [0, 2] [po_a, po_b]
             = [[(''uploaded'', JBool True), (''description'', JStr ''saw'')], po_b]"
    by (simp add: marked_def mark_po_def dict_set_def po_a_def enumerate_eq_zip upt_rec)
  have n: "nths [po_a, po_b] {i. \<not> (i < length [True, False, True] \<and> [True, False, True] ! i)}
             = [po_b]"
    by (simp add: nths_Cons nth_Cons')
  note t = selected_indices_in_range_only
      [of "''01/02/2026''" NoResponse "stale_boxes_app\<lparr>checkboxes := [False, False, True]\<rparr>"
          "''d1''" "[po_a, po_b]" "[0, 2]" "[True, False, True]" 2]
  have d: "delete_indices [po_a, po_b] (rev (sort (selected_indices [True, False, True])))
             = Inr (nths [po_a, po_b]
                      {i. \<not> (i < length [True, False, True] \<and> [True, False, True] ! i)})"
    using t by blast
  have u: "mark_uploaded [po_a, po_b] [0, 2] = Inr (marked [0, 2] [po_a, po_b])"
    using t by blast
  have e: "update_selected (stale_boxes_app\<lparr>checkboxes := [False, False, True]\<rparr>)
       = Inr (show_dialog InvalidPickUpForm (stale_boxes_app\<lparr>checkboxes := [False, False, True]\<rparr>))"
  proof -
    have le: "length [po_a, po_b] \<le> 2" by simp
    show ?thesis using t sel f le by blast
  qed
  show ?thesis
    using d u e by (simp only: n m simp_thms)
qed

end
